theory Spec2Isabelle
  imports Main "HOL-Library.AList" "HOL-Library.Word"
begin

unbundle bit_operations_syntax

section \<open>The component decorator pass of the Stencil compiler\<close>

text \<open>
  A shallow embedding of
  \<^verbatim>\<open>src/compiler/transformers/decorators-to-static/component-decorator.ts\<close>.
  The pass mutates three objects of its caller: the class node (its decorator list), the
  list of diagnostics and the list of new class members. The embedding passes them in and
  returns them updated, together with the fault the pass threw, if it threw one.

  A JavaScript string is a \<^typ>\<open>string\<close>: the list of its code units, for code units
  below 256. A JavaScript object with string keys is an association list; a lookup
  \<^verbatim>\<open>obj[k]\<close> is \<^const>\<open>map_of\<close>, and an assignment \<^verbatim>\<open>obj[k] = v\<close> is
  \<^const>\<open>AList.update\<close>, which overwrites the entry of an existing key where it stands and
  appends a new key at the end. That is the order of \<^verbatim>\<open>Object.keys\<close> for keys that
  are not array indices. The properties of objects with several keys are stated on
  lookups and sets of keys, which do not depend on the order.
\<close>

subsection \<open>Syntax trees, symbols and diagnostics of the host compiler\<close>

datatype syntaxKind = ExtendsKeyword | ImplementsKeyword

text \<open>
  The nodes the pass looks into. The first field of every node is its position in the
  source file, which stands for the identity of the node: the pass compares nodes with
  \<^verbatim>\<open>!==\<close>. A \<open>PropertyAssignment\<close> carries the text of its name
  (\<^verbatim>\<open>p.name.getText()\<close>) and its initializer; a \<open>Declaration\<close> carries its optional
  array of modifiers; \<open>OtherNode\<close> is a node of any other kind.
\<close>

datatype node =
    Decorator nat node
  | CallExpression nat node "node list"
  | Identifier nat string
  | ObjectLiteralExpression nat "node list"
  | PropertyAssignment nat string node
  | HeritageClause nat syntaxKind
  | Declaration nat "node list option"
  | OtherNode nat

fun token :: "node \<Rightarrow> syntaxKind option" where
  "token (HeritageClause i k) = Some k"
| "token n = None"

fun modifiers :: "node \<Rightarrow> node list option" where
  "modifiers (Declaration i ms) = ms"
| "modifiers n = None"

text \<open>Reading index 0 of a JavaScript array: \<^verbatim>\<open>undefined\<close> when the array is empty.\<close>

fun first :: "'a list \<Rightarrow> 'a option" where
  "first [] = None"
| "first (x # xs) = Some x"

record symbol =
  flags :: "32 word"
  name :: string
  valueDeclaration :: "node option"
  declarations :: "node list"

text \<open>The two members of \<^verbatim>\<open>ts.SymbolFlags\<close> the pass tests.\<close>

definition Interface :: "32 word" where
  "Interface = 64"

definition TypeAlias :: "32 word" where
  "TypeAlias = 524288"

text \<open>
  The class declaration: \<open>className\<close> is \<^verbatim>\<open>cmpNode.name.text\<close>, absent for a class
  without a name (\<^verbatim>\<open>export default class { }\<close>); \<open>sourceFile\<close> identifies
  \<^verbatim>\<open>cmpNode.getSourceFile()\<close>.
\<close>

record classDeclaration =
  heritageClauses :: "node list option"
  decorators :: "node list option"
  className :: "string option"
  sourceFile :: nat

text \<open>
  The type checker, as far as the pass uses it: \<open>getExportsOfModule f\<close> is
  \<^verbatim>\<open>typeChecker.getExportsOfModule(typeChecker.getSymbolAtLocation(f))\<close>.
\<close>

record typeChecker =
  getExportsOfModule :: "nat \<Rightarrow> symbol list"

text \<open>
  The configuration: \<^verbatim>\<open>config._isTesting\<close> and the four functions of
  \<^verbatim>\<open>config.sys.path\<close>, which the host environment supplies.
\<close>

record config =
  isTesting :: bool
  path_dirname :: "string \<Rightarrow> string"
  path_extname :: "string \<Rightarrow> string"
  path_basename :: "string \<Rightarrow> string \<Rightarrow> string"
  path_join :: "string \<Rightarrow> string \<Rightarrow> string"

text \<open>
  A diagnostic is its message and the node it is bound to; \<open>node = None\<close> is a diagnostic
  that no node was bound to.
\<close>

record diagnostic =
  messageText :: string
  node :: "node option"

datatype fault = TypeError

subsection \<open>The options of the decorator\<close>

text \<open>A value of type \<^verbatim>\<open>string | string[]\<close>.\<close>

datatype style = StyleString string | StyleArray "string list"

text \<open>
  \<^verbatim>\<open>styleUrls\<close> is either an array of paths or an object from mode names to styles
  (\<^verbatim>\<open>d.ModeStyles\<close>).
\<close>

datatype styleUrlsOption = UrlsArray "string list" | UrlsModes "(string \<times> style) list"

text \<open>
  \<^verbatim>\<open>d.ComponentOptions\<close>. An optional field is an \<open>option\<close>. The pass tests
  \<^verbatim>\<open>typeof tag\<close> and \<^verbatim>\<open>typeof styles\<close>: there \<open>None\<close> is any value that is not a
  string. An absent \<^verbatim>\<open>shadow\<close> or \<^verbatim>\<open>scoped\<close> is \<open>False\<close>.
\<close>

record componentOptions =
  tag :: "string option"
  shadow :: bool
  scoped :: bool
  styleUrl :: "string option"
  styleUrls :: "styleUrlsOption option"
  styles :: "string option"
  assetsDir :: "string option"
  assetsDirs :: "string list option"

text \<open>\<^verbatim>\<open>d.CompilerModeStyles\<close>: an object from mode names to lists of paths.\<close>

type_synonym compilerModeStyles = "(string \<times> string list) list"

subsection \<open>What the pass imports from other modules\<close>

text \<open>
  The constants and functions of \<^verbatim>\<open>@utils\<close>, \<^verbatim>\<open>../transform-utils\<close> and
  \<^verbatim>\<open>../remove-stencil-import\<close> are parameters of the embedding:
  the reserved mode name, the names of the decorators to remove, the checker of tag
  names (it returns the text of the rule a tag breaks), and the decoding of one argument
  of the decorator into options (\<open>None\<close> where it yields no options).
\<close>

record externals =
  DEFAULT_STYLE_MODE :: string
  CLASS_DECORATORS_TO_REMOVE :: "string list"
  validateComponentTag :: "string \<Rightarrow> string option"
  getDeclarationParameter :: "node \<Rightarrow> componentOptions option"

text \<open>
  Modelled from the spec: \<^verbatim>\<open>getDeclarationParameters\<close> of \<^verbatim>\<open>../transform-utils\<close>
  is missing. The options are constructed from the literal arguments of the annotation:
  one decoded value for each argument of the decorator call, none when the decorator is
  not a call.
\<close>

fun getDeclarationParameters :: "externals \<Rightarrow> node \<Rightarrow> componentOptions option list" where
  "getDeclarationParameters u (Decorator i (CallExpression j callee arguments)) =
     map (getDeclarationParameter u) arguments"
| "getDeclarationParameters u n = []"

text \<open>
  Modelled from the spec: the name of an annotation, which \<^verbatim>\<open>removeDecorators\<close> of
  \<^verbatim>\<open>../transform-utils\<close> (missing) compares with the fixed set. It is the identifier
  that the annotation calls.
\<close>

fun decoratorName :: "node \<Rightarrow> string option" where
  "decoratorName (Decorator i (CallExpression j (Identifier k text) arguments)) = Some text"
| "decoratorName n = None"

text \<open>
  Modelled from the spec: \<^verbatim>\<open>removeDecorators\<close> of \<^verbatim>\<open>../transform-utils\<close> is
  missing. It strips from the annotation list of the class the annotations whose name is
  in the given fixed set.
\<close>

definition removeDecorators :: "classDeclaration \<Rightarrow> string list \<Rightarrow> classDeclaration" where
  "removeDecorators cmpNode decoratorNames =
     cmpNode\<lparr>decorators :=
       map_option
         (filter (\<lambda>dec. case decoratorName dec of None \<Rightarrow> True | Some n \<Rightarrow> n \<notin> set decoratorNames))
         (decorators cmpNode)\<rparr>"

text \<open>
  Modelled from the spec: \<^verbatim>\<open>convertValueToLiteral\<close> of \<^verbatim>\<open>../transform-utils\<close> is
  missing. It turns a value (here a string, a list of strings or an object from mode
  names to lists of paths) into a literal node; the literal is the value it was built
  from.
\<close>

datatype literal =
    StringLiteral string
  | ArrayLiteral "string list"
  | ObjectLiteral compilerModeStyles

text \<open>
  A member of a class: a static getter that the pass synthesizes, or a member of any other
  kind, which the caller may have put into the list.
\<close>

datatype classElement = StaticGetter string literal | OtherElement nat

text \<open>
  Modelled from the spec: \<^verbatim>\<open>createStaticGetter\<close> of \<^verbatim>\<open>../transform-utils\<close> is
  missing. A synthesized member is a static member with a name and a literal value.
\<close>

definition createStaticGetter :: "string \<Rightarrow> literal \<Rightarrow> classElement" where
  "createStaticGetter propName lit = StaticGetter propName lit"

text \<open>
  Modelled from the spec: \<^verbatim>\<open>buildError\<close> and \<^verbatim>\<open>augmentDiagnosticWithNode\<close> of
  \<^verbatim>\<open>@utils\<close> are missing. \<open>buildError\<close> appends a new diagnostic to the shared list
  and returns it; the pass then sets its message and binds it to a node. \<open>report\<close> is
  the three steps together.
\<close>

definition report :: "diagnostic list \<Rightarrow> string \<Rightarrow> node option \<Rightarrow> diagnostic list" where
  "report diagnostics msg n = diagnostics @ [\<lparr>messageText = msg, node = n\<rparr>]"

subsection \<open>JavaScript strings\<close>

text \<open>
  \<^verbatim>\<open>String.prototype.trim\<close> removes white space and line terminators from both
  ends. Below 256 these are the code units 9 to 13, 32 and 160.
\<close>

definition isWhiteSpace :: "char \<Rightarrow> bool" where
  "isWhiteSpace c = (c \<in> set [CHR 0x09, CHR 0x0A, CHR 0x0B, CHR 0x0C, CHR 0x0D, CHR 0x20, CHR 0xA0])"

definition trim :: "string \<Rightarrow> string" where
  "trim s = rev (dropWhile isWhiteSpace (rev (dropWhile isWhiteSpace s)))"

subsection \<open>The messages\<close>

definition extendsMessage :: string where
  "extendsMessage =
     ''Classes decorated with @Component can not extend from a base class.\<newline>'' @
     ''    Stencil needs to be able to switch between different base classes in order to implement the different output targets such as: lazy and raw web components.''"

definition exclusiveMessage :: string where
  "exclusiveMessage =
     ''Components cannot be '' @ [CHR 0x22] @ ''scoped'' @ [CHR 0x22] @ '' and '' @ [CHR 0x22] @ ''shadow'' @ [CHR 0x22] @
     '' at the same time, they are mutually exclusive configurations.''"

definition decoratorsMessage :: string where
  "decoratorsMessage =
     ''Classes decorated with @Component can not be decorated with more decorators.\<newline>'' @
     ''    Stencil performs extensive static analysis on top of your components in order to generate the necessary metadata, runtime decorators at the components level make this task very hard.''"

definition tagMissingMessage :: string where
  "tagMissingMessage = ''tag missing in component decorator''"

definition tagErrorMessage :: "string \<Rightarrow> string" where
  "tagErrorMessage tagError =
     tagError @ ''. Please refer to https://html.spec.whatwg.org/multipage/custom-elements.html#valid-custom-element-name for more info.''"

definition exportsMessage :: string where
  "exportsMessage =
     ''To allow efficient bundling, modules using @Component() can only have a single export which is the component class itself.\<newline>'' @
     ''      Any other exports should be moved to a separate file.\<newline>'' @
     ''      For further information check out: https://stenciljs.com/docs/module-bundling''"

subsection \<open>Normalizing style paths\<close>

text \<open>
  \<^verbatim>\<open>normalizeStyle(style: string | string[] | undefined)\<close>: an array as it is, a
  non-empty string as the list of it, anything else as the empty list.
\<close>

fun normalizeStyle :: "style option \<Rightarrow> string list" where
  "normalizeStyle (Some (StyleArray xs)) = xs"
| "normalizeStyle (Some (StyleString s)) = (if s \<noteq> [] then [s] else [])"
| "normalizeStyle None = []"

text \<open>\<^verbatim>\<open>normalizeStyleUrls\<close>: the loop over \<^verbatim>\<open>Object.keys(styleUrls)\<close>.\<close>

definition normalizeStyleUrls :: "(string \<times> style) list \<Rightarrow> compilerModeStyles" where
  "normalizeStyleUrls modes =
     foldl (\<lambda>compilerStyleUrls key.
              AList.update key (normalizeStyle (map_of modes key)) compilerStyleUrls)
       [] (map fst modes)"

definition useCss :: "config \<Rightarrow> string \<Rightarrow> string" where
  "useCss config stylePath =
     (let sourceFileDir = path_dirname config stylePath;
          sourceFileExt = path_extname config stylePath;
          sourceFileName = path_basename config stylePath sourceFileExt
      in path_join config sourceFileDir (sourceFileName @ ''.css''))"

text \<open>
  \<^verbatim>\<open>normalizeExtension\<close>: the loop over \<^verbatim>\<open>Object.keys(styleUrls)\<close>. Every key
  of the loop is a key of the object, so \<^verbatim>\<open>styleUrls[key]\<close> is defined.
\<close>

definition normalizeExtension :: "config \<Rightarrow> compilerModeStyles \<Rightarrow> compilerModeStyles" where
  "normalizeExtension config urls =
     foldl (\<lambda>compilerStyleUrls key.
              AList.update key
                (map (useCss config) (case map_of urls key of None \<Rightarrow> [] | Some paths \<Rightarrow> paths))
                compilerStyleUrls)
       [] (map fst urls)"

text \<open>
  Lines 29 to 39 of \<^verbatim>\<open>componentDecoratorToStatic\<close>: the list \<^verbatim>\<open>defaultModeStyles\<close>.
  An array of \<^verbatim>\<open>styleUrls\<close> is pushed as it is, an object contributes its entry at the
  reserved mode; then \<^verbatim>\<open>styleUrl\<close> is pushed, if it is a non-empty string.
\<close>

definition defaultModeStyles :: "externals \<Rightarrow> componentOptions \<Rightarrow> string list" where
  "defaultModeStyles u componentOptions =
     (let defaultModeStyles = [];
          defaultModeStyles =
            (case styleUrls componentOptions of
               None \<Rightarrow> defaultModeStyles
             | Some (UrlsArray paths) \<Rightarrow>
                 defaultModeStyles @ normalizeStyle (Some (StyleArray paths))
             | Some (UrlsModes modes) \<Rightarrow>
                 defaultModeStyles @ normalizeStyle (map_of modes (DEFAULT_STYLE_MODE u)));
          defaultModeStyles =
            (case styleUrl componentOptions of
               None \<Rightarrow> defaultModeStyles
             | Some path \<Rightarrow>
                 if path \<noteq> [] then defaultModeStyles @ normalizeStyle (Some (StyleString path))
                 else defaultModeStyles)
      in defaultModeStyles)"

text \<open>
  Lines 41 to 47 of \<^verbatim>\<open>componentDecoratorToStatic\<close>: the object \<^verbatim>\<open>styleUrls\<close> that the
  pass emits as \<^verbatim>\<open>originalStyleUrls\<close>.
\<close>

definition modeStyleUrls :: "externals \<Rightarrow> componentOptions \<Rightarrow> compilerModeStyles" where
  "modeStyleUrls u componentOptions =
     (let defaultModeStyles' = defaultModeStyles u componentOptions;
          styleUrls' = [];
          styleUrls' =
            (case styleUrls componentOptions of
               Some (UrlsModes modes) \<Rightarrow> normalizeStyleUrls modes
             | _ \<Rightarrow> styleUrls')
      in if length defaultModeStyles' > 0
         then AList.update (DEFAULT_STYLE_MODE u) defaultModeStyles' styleUrls'
         else styleUrls')"

subsection \<open>Validation\<close>

text \<open>
  \<^verbatim>\<open>findTagNode\<close>. \<^verbatim>\<open>ts.isObjectLiteralExpression\<close> reads the kind of its argument,
  so it throws when the call has no argument. The loop over the properties keeps the
  initializer of the last property assignment of the given name.
\<close>

fun findTagNode :: "string \<Rightarrow> node \<Rightarrow> fault + node" where
  "findTagNode propName (Decorator i (CallExpression j callee arguments)) =
     (case arguments of
        [] \<Rightarrow> Inl TypeError
      | ObjectLiteralExpression k properties # _ \<Rightarrow>
          Inr (foldl (\<lambda>n p. case p of
                               PropertyAssignment l pname initializer \<Rightarrow>
                                 if pname = propName then initializer else n
                             | _ \<Rightarrow> n)
                 (Decorator i (CallExpression j callee arguments)) properties)
      | _ # _ \<Rightarrow> Inr (Decorator i (CallExpression j callee arguments)))"
| "findTagNode propName n = Inr n"

text \<open>
  Lines 126 to 128: the node an export diagnostic is bound to. Reading
  \<^verbatim>\<open>modifiers[0]\<close> throws when the value declaration has no array of modifiers.
\<close>

definition errorNode :: "symbol \<Rightarrow> fault + node option" where
  "errorNode s =
     (case valueDeclaration s of
        Some decl \<Rightarrow>
          (case modifiers decl of
             None \<Rightarrow> Inl TypeError
           | Some ms \<Rightarrow> Inr (first ms))
      | None \<Rightarrow> Inr (first (declarations s)))"

text \<open>
  Lines 121 to 131: the loop \<^verbatim>\<open>nonTypeExports.forEach\<close>. Each round appends a
  diagnostic and sets its message before it computes the node; a fault ends the loop and
  leaves that diagnostic without a node.
\<close>

fun reportExports :: "symbol list \<Rightarrow> diagnostic list \<Rightarrow> fault option \<times> diagnostic list" where
  "reportExports [] diagnostics = (None, diagnostics)"
| "reportExports (s # rest) diagnostics =
     (case errorNode s of
        Inl f \<Rightarrow> (Some f, report diagnostics exportsMessage None)
      | Inr n \<Rightarrow> reportExports rest (report diagnostics exportsMessage n))"

text \<open>
  Lines 117 to 119: the two filters. The second one reads \<^verbatim>\<open>cmpNode.name.text\<close> for
  every symbol the first one kept, and throws there when the class has no name.
\<close>

definition nonTypeExports :: "typeChecker \<Rightarrow> classDeclaration \<Rightarrow> fault + symbol list" where
  "nonTypeExports typeChecker cmpNode =
     (let kept = filter (\<lambda>s. flags s AND (Interface OR TypeAlias) = 0)
                   (getExportsOfModule typeChecker (sourceFile cmpNode))
      in if kept = [] then Inr []
         else case className cmpNode of
                None \<Rightarrow> Inl TypeError
              | Some text \<Rightarrow> Inr (filter (\<lambda>s. name s \<noteq> text) kept))"

text \<open>Lines 116 to 136: the single-export check and the final \<^verbatim>\<open>return true\<close>.\<close>

definition validateExports ::
  "config \<Rightarrow> diagnostic list \<Rightarrow> typeChecker \<Rightarrow> classDeclaration \<Rightarrow> (fault + bool) \<times> diagnostic list" where
  "validateExports config diagnostics typeChecker cmpNode =
     (if \<not> isTesting config then
        (case nonTypeExports typeChecker cmpNode of
           Inl f \<Rightarrow> (Inl f, diagnostics)
         | Inr offending \<Rightarrow>
             (case reportExports offending diagnostics of
                (Some f, diagnostics') \<Rightarrow> (Inl f, diagnostics')
              | (None, diagnostics') \<Rightarrow>
                  if length offending > 0 then (Inr False, diagnostics')
                  else (Inr True, diagnostics')))
      else (Inr True, diagnostics))"

text \<open>
  \<^verbatim>\<open>validateComponent\<close>: the result is what the function returned, or the fault it
  threw, and the list of diagnostics as it left it.
\<close>

definition validateComponent ::
  "externals \<Rightarrow> config \<Rightarrow> diagnostic list \<Rightarrow> typeChecker \<Rightarrow> componentOptions \<Rightarrow>
   classDeclaration \<Rightarrow> node \<Rightarrow> (fault + bool) \<times> diagnostic list" where
  "validateComponent u config diagnostics typeChecker componentOptions cmpNode componentDecorator =
     (case (case heritageClauses cmpNode of
              None \<Rightarrow> None
            | Some clauses \<Rightarrow> find (\<lambda>c. token c = Some ExtendsKeyword) clauses) of
        Some extendNode \<Rightarrow> (Inr False, report diagnostics extendsMessage (Some extendNode))
      | None \<Rightarrow>
          if shadow componentOptions \<and> scoped componentOptions then
            (case findTagNode ''scoped'' componentDecorator of
               Inl f \<Rightarrow> (Inl f, report diagnostics exclusiveMessage None)
             | Inr n \<Rightarrow> (Inr False, report diagnostics exclusiveMessage (Some n)))
          else
            (case (case decorators cmpNode of
                     None \<Rightarrow> None
                   | Some ds \<Rightarrow> find (\<lambda>d. d \<noteq> componentDecorator) ds) of
               Some otherDecorator \<Rightarrow>
                 (Inr False, report diagnostics decoratorsMessage (Some otherDecorator))
             | None \<Rightarrow>
                 (case tag componentOptions of
                    None \<Rightarrow>
                      (Inr False, report diagnostics tagMissingMessage (Some componentDecorator))
                  | Some t \<Rightarrow>
                      if length (trim t) = 0 then
                        (Inr False, report diagnostics tagMissingMessage (Some componentDecorator))
                      else
                        (case validateComponentTag u t of
                           Some tagError \<Rightarrow>
                             if tagError \<noteq> [] then
                               (case findTagNode ''tag'' componentDecorator of
                                  Inl f \<Rightarrow>
                                    (Inl f, report diagnostics (tagErrorMessage tagError) None)
                                | Inr n \<Rightarrow>
                                    (Inr False,
                                     report diagnostics (tagErrorMessage tagError) (Some n)))
                             else validateExports config diagnostics typeChecker cmpNode
                         | None \<Rightarrow> validateExports config diagnostics typeChecker cmpNode))))"

subsection \<open>The pass\<close>

text \<open>
  Lines 20 to 69: the members the pass pushes once validation has passed.
  \<^verbatim>\<open>componentOptions.tag.trim()\<close> throws when the tag is not a string. A local
  variable of the source that has the name of a field of the options carries a prime
  here.
\<close>

definition staticMembers ::
  "externals \<Rightarrow> config \<Rightarrow> componentOptions \<Rightarrow> classElement list \<Rightarrow> fault + classElement list" where
  "staticMembers u config componentOptions newMembers =
     (case tag componentOptions of
        None \<Rightarrow> Inl TypeError
      | Some t \<Rightarrow>
          (let newMembers = newMembers @ [createStaticGetter ''is'' (StringLiteral (trim t))];
               newMembers =
                 (if shadow componentOptions then
                    newMembers @ [createStaticGetter ''encapsulation'' (StringLiteral ''shadow'')]
                  else if scoped componentOptions then
                    newMembers @ [createStaticGetter ''encapsulation'' (StringLiteral ''scoped'')]
                  else newMembers);
               styleUrls' = modeStyleUrls u componentOptions;
               newMembers =
                 (if length (map fst styleUrls') > 0 then
                    newMembers @
                      [createStaticGetter ''originalStyleUrls'' (ObjectLiteral styleUrls'),
                       createStaticGetter ''styleUrls''
                         (ObjectLiteral (normalizeExtension config styleUrls'))]
                  else newMembers);
               assetsDirs' =
                 (case assetsDirs componentOptions of None \<Rightarrow> [] | Some dirs \<Rightarrow> dirs);
               assetsDirs' =
                 (case assetsDir componentOptions of
                    None \<Rightarrow> assetsDirs'
                  | Some dir \<Rightarrow> if dir \<noteq> [] then assetsDirs' @ [dir] else assetsDirs');
               newMembers =
                 (if length assetsDirs' > 0 then
                    newMembers @ [createStaticGetter ''assetsDirs'' (ArrayLiteral assetsDirs')]
                  else newMembers);
               newMembers =
                 (case styles componentOptions of
                    None \<Rightarrow> newMembers
                  | Some text \<Rightarrow>
                      (let styles' = trim text
                       in if length styles' > 0 then
                            newMembers @ [createStaticGetter ''styles'' (StringLiteral styles')]
                          else newMembers))
           in Inr newMembers))"

text \<open>
  What the pass leaves behind: the fault it threw, if any, and the three objects of the
  caller it writes to.
\<close>

record passResult =
  thrown :: "fault option"
  cmpNodeAfter :: classDeclaration
  diagnosticsAfter :: "diagnostic list"
  newMembersAfter :: "classElement list"

definition componentDecoratorToStatic ::
  "externals \<Rightarrow> config \<Rightarrow> typeChecker \<Rightarrow> diagnostic list \<Rightarrow> classDeclaration \<Rightarrow>
   classElement list \<Rightarrow> node \<Rightarrow> passResult" where
  "componentDecoratorToStatic u config typeChecker diagnostics cmpNode newMembers componentDecorator =
     (let cmpNode = removeDecorators cmpNode (CLASS_DECORATORS_TO_REMOVE u) in
      case first (getDeclarationParameters u componentDecorator) of
        None \<Rightarrow>
          \<lparr>thrown = None, cmpNodeAfter = cmpNode, diagnosticsAfter = diagnostics,
           newMembersAfter = newMembers\<rparr>
      | Some None \<Rightarrow>
          \<lparr>thrown = None, cmpNodeAfter = cmpNode, diagnosticsAfter = diagnostics,
           newMembersAfter = newMembers\<rparr>
      | Some (Some componentOptions) \<Rightarrow>
          (case validateComponent u config diagnostics typeChecker componentOptions cmpNode
                  componentDecorator of
             (Inl f, diagnostics') \<Rightarrow>
               \<lparr>thrown = Some f, cmpNodeAfter = cmpNode, diagnosticsAfter = diagnostics',
                newMembersAfter = newMembers\<rparr>
           | (Inr False, diagnostics') \<Rightarrow>
               \<lparr>thrown = None, cmpNodeAfter = cmpNode, diagnosticsAfter = diagnostics',
                newMembersAfter = newMembers\<rparr>
           | (Inr True, diagnostics') \<Rightarrow>
               (case staticMembers u config componentOptions newMembers of
                  Inl f \<Rightarrow>
                    \<lparr>thrown = Some f, cmpNodeAfter = cmpNode, diagnosticsAfter = diagnostics',
                     newMembersAfter = newMembers\<rparr>
                | Inr newMembers' \<Rightarrow>
                    \<lparr>thrown = None, cmpNodeAfter = cmpNode, diagnosticsAfter = diagnostics',
                     newMembersAfter = newMembers'\<rparr>)))"

subsection \<open>Concrete inputs\<close>

text \<open>
  A host path capability for the concrete inputs below. A path is split at its last
  slash; the extension of a file name starts at its last dot, unless that dot is its
  first character; joining onto the directory \<^verbatim>\<open>.\<close> gives the file name alone.
\<close>

definition exampleFile :: "string \<Rightarrow> string" where
  "exampleFile p = rev (takeWhile (\<lambda>c. c \<noteq> CHR ''/'') (rev p))"

definition exampleDirname :: "string \<Rightarrow> string" where
  "exampleDirname p =
     (if CHR ''/'' \<notin> set p then ''.''
      else let dir = rev (drop 1 (dropWhile (\<lambda>c. c \<noteq> CHR ''/'') (rev p)))
           in if dir = [] then ''/'' else dir)"

definition exampleExtname :: "string \<Rightarrow> string" where
  "exampleExtname p =
     (let file = exampleFile p;
          ext = rev (takeWhile (\<lambda>c. c \<noteq> CHR ''.'') (rev file))
      in if CHR ''.'' \<notin> set file \<or> length ext + 1 = length file then [] else CHR ''.'' # ext)"

definition exampleBasename :: "string \<Rightarrow> string \<Rightarrow> string" where
  "exampleBasename p ext =
     (let file = exampleFile p
      in if ext \<noteq> [] \<and> length ext < length file \<and> drop (length file - length ext) file = ext
         then take (length file - length ext) file else file)"

definition exampleJoin :: "string \<Rightarrow> string \<Rightarrow> string" where
  "exampleJoin dir file = (if dir = ''.'' then file else dir @ ''/'' @ file)"

definition exampleConfig :: "bool \<Rightarrow> config" where
  "exampleConfig testing =
     \<lparr>isTesting = testing, path_dirname = exampleDirname, path_extname = exampleExtname,
      path_basename = exampleBasename, path_join = exampleJoin\<rparr>"

text \<open>
  Imports for the concrete inputs: the reserved mode is \<^verbatim>\<open>$\<close>, the decorator to
  remove is \<^verbatim>\<open>Component\<close>, a tag name is accepted when it contains a dash, and the
  argument of the decorator decodes to the given options.
\<close>

definition exampleExternals :: "componentOptions \<Rightarrow> externals" where
  "exampleExternals opts =
     \<lparr>DEFAULT_STYLE_MODE = ''$'',
      CLASS_DECORATORS_TO_REMOVE = [''Component''],
      validateComponentTag =
        (\<lambda>t. if CHR ''-'' \<in> set t then None else Some ''tag must contain a dash''),
      getDeclarationParameter = (\<lambda>arg. Some opts)\<rparr>"

text \<open>
  The decorator \<^verbatim>\<open>@Component({ tag: ..., shadow: ..., scoped: ... })\<close>, a class
  \<^verbatim>\<open>MyCmp\<close> that carries it, and options with the tag \<^verbatim>\<open>my-cmp\<close> and nothing else.
\<close>

definition exampleDecorator :: node where
  "exampleDecorator =
     Decorator 10 (CallExpression 11 (Identifier 12 ''Component'')
       [ObjectLiteralExpression 13
          [PropertyAssignment 14 ''tag'' (OtherNode 15),
           PropertyAssignment 16 ''shadow'' (OtherNode 17),
           PropertyAssignment 18 ''scoped'' (OtherNode 19)]])"

definition exampleClass :: "node list option \<Rightarrow> classDeclaration" where
  "exampleClass clauses =
     \<lparr>heritageClauses = clauses, decorators = Some [exampleDecorator],
      className = Some ''MyCmp'', sourceFile = 1\<rparr>"

definition exampleOptions :: componentOptions where
  "exampleOptions =
     \<lparr>tag = Some ''my-cmp'', shadow = False, scoped = False, styleUrl = None, styleUrls = None,
      styles = None, assetsDir = None, assetsDirs = None\<rparr>"

text \<open>Options that set every field, with white space around the tag and the styles.\<close>

definition fullOptions :: componentOptions where
  "fullOptions =
     \<lparr>tag = Some ''  my-cmp '', shadow = True, scoped = False, styleUrl = Some ''a.scss'',
      styleUrls = Some (UrlsModes [(''ios'', StyleString ''b.scss'')]),
      styles = Some '' :host { } '', assetsDir = Some ''img'', assetsDirs = Some [''fonts'']\<rparr>"

text \<open>
  Exported symbols. \<open>classSymbol\<close> is \<^verbatim>\<open>export class MyCmp\<close>. \<open>constSymbol\<close> is
  \<^verbatim>\<open>export const helper = ...\<close>: its value declaration is the variable declaration,
  and the \<^verbatim>\<open>export\<close> modifier stands on the enclosing statement, so the declaration
  has no array of modifiers. \<open>functionSymbol\<close> is \<^verbatim>\<open>export function other\<close> and
  \<open>interfaceSymbol\<close> is \<^verbatim>\<open>export interface Props\<close>. The flags are those of
  \<^verbatim>\<open>ts.SymbolFlags\<close>: 2 a block-scoped variable, 16 a function, 32 a class, 64 an
  interface.
\<close>

definition classSymbol :: symbol where
  "classSymbol =
     \<lparr>flags = 32, name = ''MyCmp'',
      valueDeclaration = Some (Declaration 1 (Some [OtherNode 2])),
      declarations = [Declaration 1 (Some [OtherNode 2])]\<rparr>"

definition constSymbol :: symbol where
  "constSymbol =
     \<lparr>flags = 2, name = ''helper'',
      valueDeclaration = Some (Declaration 30 None),
      declarations = [Declaration 30 None]\<rparr>"

definition functionSymbol :: symbol where
  "functionSymbol =
     \<lparr>flags = 16, name = ''other'',
      valueDeclaration = Some (Declaration 40 (Some [OtherNode 41])),
      declarations = [Declaration 40 (Some [OtherNode 41])]\<rparr>"

definition interfaceSymbol :: symbol where
  "interfaceSymbol =
     \<lparr>flags = 64, name = ''Props'', valueDeclaration = None,
      declarations = [Declaration 50 (Some [OtherNode 51])]\<rparr>"

definition exampleChecker :: "symbol list \<Rightarrow> typeChecker" where
  "exampleChecker others = \<lparr>getExportsOfModule = (\<lambda>f. classSymbol # others)\<rparr>"

section \<open>Properties\<close>

subsection \<open>Objects built by a loop of assignments\<close>

lemma update_fresh: "k \<notin> fst ` set al \<Longrightarrow> AList.update k v al = al @ [(k, v)]"
  by (induction al) auto

lemma map_of_foldl_update:
  "map_of (foldl (\<lambda>acc key. AList.update key (h key) acc) acc ks) k =
     (if k \<in> set ks then Some (h k) else map_of acc k)"
  by (induction ks arbitrary: acc) (auto simp: update_conv')

lemma distinct_foldl_update:
  "distinct (map fst acc) \<Longrightarrow>
   distinct (map fst (foldl (\<lambda>acc key. AList.update key (h key) acc) acc ks))"
  by (induction ks arbitrary: acc) (auto simp: distinct_update)

lemma keys_foldl_update:
  "fst ` set (foldl (\<lambda>acc key. AList.update key (h key) acc) acc ks) = fst ` set acc \<union> set ks"
  by (induction ks arbitrary: acc) (auto simp: dom_update)

lemma foldl_update_fresh:
  "distinct (map fst ys) \<Longrightarrow> fst ` set acc \<inter> fst ` set ys = {} \<Longrightarrow>
   foldl (\<lambda>acc key. AList.update key (h key) acc) acc (map fst ys) =
     acc @ map (\<lambda>(k, v). (k, h k)) ys"
proof (induction ys arbitrary: acc)
  case Nil
  then show ?case by simp
next
  case (Cons y ys)
  obtain k v where y: "y = (k, v)" by (cases y)
  from Cons.prems have fresh: "k \<notin> fst ` set acc" by (auto simp: y)
  have "fst ` set (acc @ [(k, h k)]) \<inter> fst ` set ys = {}"
    using Cons.prems by (auto simp: y)
  moreover have "distinct (map fst ys)" using Cons.prems by simp
  ultimately show ?case
    using Cons.IH [of "acc @ [(k, h k)]"] by (simp add: y update_fresh [OF fresh])
qed

lemma map_of_normalizeStyleUrls:
  "map_of (normalizeStyleUrls modes) mode =
     map_option (\<lambda>v. normalizeStyle (Some v)) (map_of modes mode)"
  unfolding normalizeStyleUrls_def map_of_foldl_update
  by (auto simp: map_of_eq_None_iff [symmetric] dest: weak_map_of_SomeI)

lemma map_of_normalizeExtension:
  "map_of (normalizeExtension config urls) mode =
     map_option (map (useCss config)) (map_of urls mode)"
  unfolding normalizeExtension_def map_of_foldl_update
  by (auto simp: map_of_eq_None_iff [symmetric] dest: weak_map_of_SomeI)

lemma normalizeExtension_distinct:
  "distinct (map fst urls) \<Longrightarrow>
   normalizeExtension config urls =
     map (\<lambda>(mode, paths). (mode, map (useCss config) paths)) urls"
  unfolding normalizeExtension_def
  by (subst foldl_update_fresh) (auto intro!: map_cong)

lemma normalizeExtension_single:
  "normalizeExtension config [(mode, paths)] = [(mode, map (useCss config) paths)]"
  by (simp add: normalizeExtension_def)

lemma distinct_normalizeStyleUrls: "distinct (map fst (normalizeStyleUrls modes))"
  unfolding normalizeStyleUrls_def by (rule distinct_foldl_update) simp

lemma keys_normalizeStyleUrls: "fst ` set (normalizeStyleUrls modes) = fst ` set modes"
  unfolding normalizeStyleUrls_def by (simp add: keys_foldl_update)

subsection \<open>The normalized style paths of the options\<close>

lemma distinct_modeStyleUrls: "distinct (map fst (modeStyleUrls u opts))"
  by (auto simp: modeStyleUrls_def Let_def distinct_update distinct_normalizeStyleUrls
      split: option.splits styleUrlsOption.splits)

lemma modeStyleUrls_array:
  assumes "styleUrls opts = Some (UrlsArray paths)"
  shows "modeStyleUrls u opts =
     (if paths @ (case styleUrl opts of
                    None \<Rightarrow> []
                  | Some path \<Rightarrow> if path \<noteq> [] then [path] else []) = []
      then []
      else [(DEFAULT_STYLE_MODE u,
             paths @ (case styleUrl opts of
                        None \<Rightarrow> []
                      | Some path \<Rightarrow> if path \<noteq> [] then [path] else []))])"
  using assms by (simp add: modeStyleUrls_def defaultModeStyles_def Let_def split: option.splits)

lemma defaultModeStyles_modes:
  assumes "styleUrls opts = Some (UrlsModes modes)"
  shows "defaultModeStyles u opts =
     normalizeStyle (map_of modes (DEFAULT_STYLE_MODE u)) @
     (case styleUrl opts of None \<Rightarrow> [] | Some path \<Rightarrow> if path \<noteq> [] then [path] else [])"
  using assms by (simp add: defaultModeStyles_def Let_def split: option.splits)

lemma map_of_modeStyleUrls_modes:
  assumes "styleUrls opts = Some (UrlsModes modes)"
  shows "map_of (modeStyleUrls u opts) mode =
     (if mode = DEFAULT_STYLE_MODE u \<and> defaultModeStyles u opts \<noteq> []
      then Some (defaultModeStyles u opts)
      else map_option (\<lambda>v. normalizeStyle (Some v)) (map_of modes mode))"
  using assms
  by (simp add: modeStyleUrls_def Let_def update_conv' map_of_normalizeStyleUrls)

lemma keys_modeStyleUrls_modes:
  assumes "styleUrls opts = Some (UrlsModes modes)"
  shows "fst ` set (modeStyleUrls u opts) =
     fst ` set modes \<union> (if defaultModeStyles u opts \<noteq> [] then {DEFAULT_STYLE_MODE u} else {})"
  using assms
  by (auto simp: modeStyleUrls_def Let_def dom_update keys_normalizeStyleUrls)

subsection \<open>The pass after validation\<close>

lemma validateComponent_True_tag:
  assumes "fst (validateComponent u config diags tc opts cls dec) = Inr True"
  shows "\<exists>t. tag opts = Some t \<and> trim t \<noteq> []"
  using assms unfolding validateComponent_def
  by (auto split: option.splits if_splits sum.splits)

lemma staticMembers_Some:
  assumes "tag opts = Some t"
  shows "staticMembers u config opts ms =
     Inr (ms @
       [StaticGetter ''is'' (StringLiteral (trim t))] @
       (if shadow opts then [StaticGetter ''encapsulation'' (StringLiteral ''shadow'')]
        else if scoped opts then [StaticGetter ''encapsulation'' (StringLiteral ''scoped'')]
        else []) @
       (if modeStyleUrls u opts \<noteq> [] then
          [StaticGetter ''originalStyleUrls'' (ObjectLiteral (modeStyleUrls u opts)),
           StaticGetter ''styleUrls''
             (ObjectLiteral (normalizeExtension config (modeStyleUrls u opts)))]
        else []) @
       (if (case assetsDirs opts of None \<Rightarrow> [] | Some ds \<Rightarrow> ds) @
           (case assetsDir opts of None \<Rightarrow> [] | Some d \<Rightarrow> if d \<noteq> [] then [d] else []) \<noteq> []
        then [StaticGetter ''assetsDirs'' (ArrayLiteral
                ((case assetsDirs opts of None \<Rightarrow> [] | Some ds \<Rightarrow> ds) @
                 (case assetsDir opts of None \<Rightarrow> [] | Some d \<Rightarrow> if d \<noteq> [] then [d] else [])))]
        else []) @
       (case styles opts of
          None \<Rightarrow> []
        | Some text \<Rightarrow>
            if trim text \<noteq> [] then [StaticGetter ''styles'' (StringLiteral (trim text))]
            else []))"
  using assms unfolding staticMembers_def createStaticGetter_def Let_def
  by (simp split: option.splits)

lemma pass_valid:
  assumes "first (getDeclarationParameters u dec) = Some (Some opts)"
    and "fst (validateComponent u config diags tc opts
           (removeDecorators cls (CLASS_DECORATORS_TO_REMOVE u)) dec) = Inr True"
  shows "\<exists>t ms'. tag opts = Some t \<and> staticMembers u config opts ms = Inr ms' \<and>
     componentDecoratorToStatic u config tc diags cls ms dec =
       \<lparr>thrown = None, cmpNodeAfter = removeDecorators cls (CLASS_DECORATORS_TO_REMOVE u),
        diagnosticsAfter =
          snd (validateComponent u config diags tc opts
                 (removeDecorators cls (CLASS_DECORATORS_TO_REMOVE u)) dec),
        newMembersAfter = ms'\<rparr>"
proof -
  from assms(2) obtain t where t: "tag opts = Some t"
    using validateComponent_True_tag by blast
  obtain r diags' where v: "validateComponent u config diags tc opts
      (removeDecorators cls (CLASS_DECORATORS_TO_REMOVE u)) dec = (r, diags')"
    by (cases "validateComponent u config diags tc opts
      (removeDecorators cls (CLASS_DECORATORS_TO_REMOVE u)) dec")
  with assms(2) have r: "r = Inr True" by simp
  show ?thesis
    using assms(1) t v r staticMembers_Some [OF t, of u config ms]
    by (simp add: componentDecoratorToStatic_def Let_def)
qed

lemma pass_invalid:
  assumes "first (getDeclarationParameters u dec) = Some (Some opts)"
    and "fst (validateComponent u config diags tc opts
           (removeDecorators cls (CLASS_DECORATORS_TO_REMOVE u)) dec) \<noteq> Inr True"
  shows "newMembersAfter (componentDecoratorToStatic u config tc diags cls ms dec) = ms"
  using assms
  by (auto simp: componentDecoratorToStatic_def Let_def split: prod.splits sum.splits bool.splits)

lemma pass_emits_styleUrls:
  assumes "first (getDeclarationParameters u dec) = Some (Some opts)"
    and "fst (validateComponent u config diags tc opts
           (removeDecorators cls (CLASS_DECORATORS_TO_REMOVE u)) dec) = Inr True"
    and "modeStyleUrls u opts \<noteq> []"
  shows "\<exists>before after.
     newMembersAfter (componentDecoratorToStatic u config tc diags cls ms dec) =
       ms @ before @
       [StaticGetter ''originalStyleUrls'' (ObjectLiteral (modeStyleUrls u opts)),
        StaticGetter ''styleUrls''
          (ObjectLiteral (normalizeExtension config (modeStyleUrls u opts)))] @ after"
proof -
  from pass_valid [OF assms(1,2), of ms] obtain t ms' where
    t: "tag opts = Some t" and m: "staticMembers u config opts ms = Inr ms'"
    and p: "newMembersAfter (componentDecoratorToStatic u config tc diags cls ms dec) = ms'"
    by force
  let ?before = "[StaticGetter ''is'' (StringLiteral (trim t))] @
       (if shadow opts then [StaticGetter ''encapsulation'' (StringLiteral ''shadow'')]
        else if scoped opts then [StaticGetter ''encapsulation'' (StringLiteral ''scoped'')]
        else [])"
  let ?after = "(if (case assetsDirs opts of None \<Rightarrow> [] | Some ds \<Rightarrow> ds) @
           (case assetsDir opts of None \<Rightarrow> [] | Some d \<Rightarrow> if d \<noteq> [] then [d] else []) \<noteq> []
        then [StaticGetter ''assetsDirs'' (ArrayLiteral
                ((case assetsDirs opts of None \<Rightarrow> [] | Some ds \<Rightarrow> ds) @
                 (case assetsDir opts of None \<Rightarrow> [] | Some d \<Rightarrow> if d \<noteq> [] then [d] else [])))]
        else []) @
       (case styles opts of
          None \<Rightarrow> []
        | Some text \<Rightarrow>
            if trim text \<noteq> [] then [StaticGetter ''styles'' (StringLiteral (trim text))]
            else [])"
  have "ms' = ms @ ?before @
       [StaticGetter ''originalStyleUrls'' (ObjectLiteral (modeStyleUrls u opts)),
        StaticGetter ''styleUrls''
          (ObjectLiteral (normalizeExtension config (modeStyleUrls u opts)))] @ ?after"
    using m staticMembers_Some [OF t, of u config ms] assms(3) by simp
  with p show ?thesis by blast
qed

subsection \<open>Locating an argument of the decorator\<close>

lemma findTagNode_foldl:
  "foldl (\<lambda>n p. case p of
                   PropertyAssignment l pname initializer \<Rightarrow>
                     if pname = propName then initializer else n
                 | _ \<Rightarrow> n) n0 props =
   last (n0 # [initializer. PropertyAssignment l pname initializer \<leftarrow> props, pname = propName])"
proof (induction props rule: rev_induct)
  case Nil
  then show ?case by simp
next
  case (snoc p props)
  show ?case
    by (cases p) (simp_all add: snoc.IH)
qed

text \<open>
  A decorator that options were decoded from is a call with an argument, so
  \<open>findTagNode\<close> does not throw on it. It returns the initializer of the last property
  assignment of the given name in the first argument, when that is an object literal
  with such a property, and the decorator itself otherwise.
\<close>

lemma findTagNode_with_parameters:
  assumes "first (getDeclarationParameters u dec) = Some p"
  shows "findTagNode propName dec =
     Inr (case dec of
            Decorator i (CallExpression j callee (ObjectLiteralExpression k props # rest)) \<Rightarrow>
              last (dec # [initializer. PropertyAssignment l pname initializer \<leftarrow> props,
                             pname = propName])
          | _ \<Rightarrow> dec)"
proof (cases "\<exists>i j callee arguments. dec = Decorator i (CallExpression j callee arguments)")
  case True
  then obtain i j callee arguments where d: "dec = Decorator i (CallExpression j callee arguments)"
    by blast
  with assms obtain a rest where a: "arguments = a # rest"
    by (cases arguments) auto
  show ?thesis
    by (cases a) (simp_all add: d a findTagNode_foldl del: last.simps)
next
  case False
  then have "getDeclarationParameters u dec = []"
    by (cases "(u, dec)" rule: getDeclarationParameters.cases) auto
  with assms show ?thesis by simp
qed

subsection \<open>The concrete inputs\<close>

lemma example_mode [simp]: "DEFAULT_STYLE_MODE (exampleExternals opts) = ''$''"
  by (simp add: exampleExternals_def)

lemma example_remove [simp]:
  "CLASS_DECORATORS_TO_REMOVE (exampleExternals opts) = [''Component'']"
  by (simp add: exampleExternals_def)

lemma example_parameters [simp]:
  "first (getDeclarationParameters (exampleExternals opts) exampleDecorator) = Some (Some opts)"
  by (simp add: exampleExternals_def exampleDecorator_def)

section \<open>The claims about the style paths\<close>

text \<open>
  Claim C1, as stated, at a concrete input: \<^verbatim>\<open>styleUrls: ["b.scss"]\<close> with
  \<^verbatim>\<open>styleUrl: "a.scss"\<close>. The claim puts the contribution of \<^verbatim>\<open>styleUrl\<close> first,
  which would be the list \<^verbatim>\<open>["a.scss", "b.scss"]\<close>. The pass pushes the array of
  \<^verbatim>\<open>styleUrls\<close> first (lines 30 to 36) and \<^verbatim>\<open>styleUrl\<close> after it (lines 37 to
  39), and emits \<^verbatim>\<open>["b.scss", "a.scss"]\<close>.
\<close>

theorem styleUrl_first_counterexample:
  "newMembersAfter
     (componentDecoratorToStatic
        (exampleExternals
           (exampleOptions\<lparr>styleUrl := Some ''a.scss'', styleUrls := Some (UrlsArray [''b.scss''])\<rparr>))
        (exampleConfig False) (exampleChecker []) [] (exampleClass None) [] exampleDecorator) =
     [StaticGetter ''is'' (StringLiteral ''my-cmp''),
      StaticGetter ''originalStyleUrls'' (ObjectLiteral [(''$'', [''b.scss'', ''a.scss''])]),
      StaticGetter ''styleUrls'' (ObjectLiteral [(''$'', [''b.css'', ''a.css''])])] \<and>
   modeStyleUrls
     (exampleExternals
        (exampleOptions\<lparr>styleUrl := Some ''a.scss'', styleUrls := Some (UrlsArray [''b.scss''])\<rparr>))
     (exampleOptions\<lparr>styleUrl := Some ''a.scss'', styleUrls := Some (UrlsArray [''b.scss''])\<rparr>) \<noteq>
     [(''$'', [''a.scss''] @ [''b.scss''])]"
  by code_simp

text \<open>
  Claim C1, amended. When \<^verbatim>\<open>styleUrls\<close> is an array and \<^verbatim>\<open>styleUrl\<close> is a
  non-empty string, the normalized object has the reserved mode as its only key, and its
  list is the array of \<^verbatim>\<open>styleUrls\<close> followed by \<^verbatim>\<open>styleUrl\<close>. For every such
  configuration that passes validation, the pass appends \<^verbatim>\<open>originalStyleUrls\<close> with
  this object and \<^verbatim>\<open>styleUrls\<close> with the same list, each path compiled.
\<close>

theorem styleUrls_list_precedes_styleUrl:
  assumes "styleUrls opts = Some (UrlsArray paths)"
    and "styleUrl opts = Some path"
    and "path \<noteq> []"
    and "first (getDeclarationParameters u dec) = Some (Some opts)"
    and "fst (validateComponent u config diags tc opts
           (removeDecorators cls (CLASS_DECORATORS_TO_REMOVE u)) dec) = Inr True"
  shows "modeStyleUrls u opts = [(DEFAULT_STYLE_MODE u, paths @ [path])] \<and>
     (\<exists>before after.
        newMembersAfter (componentDecoratorToStatic u config tc diags cls ms dec) =
          ms @ before @
          [StaticGetter ''originalStyleUrls''
             (ObjectLiteral [(DEFAULT_STYLE_MODE u, paths @ [path])]),
           StaticGetter ''styleUrls''
             (ObjectLiteral [(DEFAULT_STYLE_MODE u, map (useCss config) (paths @ [path]))])] @
          after)"
proof -
  have m: "modeStyleUrls u opts = [(DEFAULT_STYLE_MODE u, paths @ [path])]"
    using assms(1-3) by (simp add: modeStyleUrls_array)
  then have "modeStyleUrls u opts \<noteq> []" by simp
  from pass_emits_styleUrls [OF assms(4,5) this, of ms] m show ?thesis
    by (simp add: normalizeExtension_single)
qed

text \<open>
  Claim C1, amended, at a concrete input: \<^verbatim>\<open>styleUrls: ["b.scss"]\<close> and
  \<^verbatim>\<open>styleUrl: "a.scss"\<close> in a module that also exports an interface.
\<close>

theorem styleUrls_list_precedes_styleUrl_witness:
  "fst (validateComponent
          (exampleExternals
             (exampleOptions\<lparr>styleUrl := Some ''a.scss'', styleUrls := Some (UrlsArray [''b.scss''])\<rparr>))
          (exampleConfig False) [] (exampleChecker [interfaceSymbol])
          (exampleOptions\<lparr>styleUrl := Some ''a.scss'', styleUrls := Some (UrlsArray [''b.scss''])\<rparr>)
          (removeDecorators (exampleClass None) [''Component'']) exampleDecorator) = Inr True \<and>
   modeStyleUrls
     (exampleExternals
        (exampleOptions\<lparr>styleUrl := Some ''a.scss'', styleUrls := Some (UrlsArray [''b.scss''])\<rparr>))
     (exampleOptions\<lparr>styleUrl := Some ''a.scss'', styleUrls := Some (UrlsArray [''b.scss''])\<rparr>) =
     [(''$'', [''b.scss'', ''a.scss''])] \<and>
   (\<exists>before after.
      newMembersAfter
        (componentDecoratorToStatic
           (exampleExternals
              (exampleOptions\<lparr>styleUrl := Some ''a.scss'', styleUrls := Some (UrlsArray [''b.scss''])\<rparr>))
           (exampleConfig False) (exampleChecker [interfaceSymbol]) [] (exampleClass None)
           [OtherElement 0] exampleDecorator) =
        [OtherElement 0] @ before @
        [StaticGetter ''originalStyleUrls'' (ObjectLiteral [(''$'', [''b.scss'', ''a.scss''])]),
         StaticGetter ''styleUrls'' (ObjectLiteral [(''$'', [''b.css'', ''a.css''])])] @ after)"
proof -
  let ?o = "exampleOptions\<lparr>styleUrl := Some ''a.scss'', styleUrls := Some (UrlsArray [''b.scss''])\<rparr>"
  have v: "fst (validateComponent (exampleExternals ?o) (exampleConfig False) []
             (exampleChecker [interfaceSymbol]) ?o
             (removeDecorators (exampleClass None)
                (CLASS_DECORATORS_TO_REMOVE (exampleExternals ?o))) exampleDecorator) = Inr True"
    by code_simp
  have c: "map (useCss (exampleConfig False)) ([''b.scss''] @ [''a.scss'']) = [''b.css'', ''a.css'']"
    by code_simp
  show ?thesis
    using styleUrls_list_precedes_styleUrl
      [where opts = ?o and paths = "[''b.scss'']" and path = "''a.scss''"
         and u = "exampleExternals ?o" and dec = exampleDecorator
         and config = "exampleConfig False" and diags = "[]"
         and tc = "exampleChecker [interfaceSymbol]" and cls = "exampleClass None"
         and ms = "[OtherElement 0]", OF _ _ _ example_parameters v] v c
    by (simp add: exampleOptions_def)
qed

text \<open>
  Claim C3. When \<^verbatim>\<open>styleUrls\<close> is an object of modes, the normalized object has at
  every mode other than the reserved one exactly the normalized list of that mode's own
  value: \<^verbatim>\<open>styleUrl\<close> merges into no explicit mode. For
  \<^verbatim>\<open>styleUrls: { ios: "b.scss", md: ["c.scss", "d.scss"] }\<close> with
  \<^verbatim>\<open>styleUrl: "a.scss"\<close>, the reserved mode being neither \<^verbatim>\<open>ios\<close> nor \<^verbatim>\<open>md\<close>,
  the normalized object is exactly \<^verbatim>\<open>ios\<close> with \<^verbatim>\<open>["b.scss"]\<close>, \<^verbatim>\<open>md\<close> with
  \<^verbatim>\<open>["c.scss", "d.scss"]\<close> and the reserved mode with \<^verbatim>\<open>["a.scss"]\<close>, each key
  once.
\<close>

theorem per_mode_styleUrls_normalized:
  "(\<forall>opts modes mode.
      styleUrls opts = Some (UrlsModes modes) \<and> mode \<noteq> DEFAULT_STYLE_MODE u \<longrightarrow>
      map_of (modeStyleUrls u opts) mode =
        map_option (\<lambda>v. normalizeStyle (Some v)) (map_of modes mode)) \<and>
   (\<forall>opts.
      styleUrls opts =
        Some (UrlsModes [(''ios'', StyleString ''b.scss''),
                         (''md'', StyleArray [''c.scss'', ''d.scss''])]) \<and>
      styleUrl opts = Some ''a.scss'' \<and>
      DEFAULT_STYLE_MODE u \<noteq> ''ios'' \<and> DEFAULT_STYLE_MODE u \<noteq> ''md'' \<longrightarrow>
      map_of (modeStyleUrls u opts) =
        [''ios'' \<mapsto> [''b.scss''], ''md'' \<mapsto> [''c.scss'', ''d.scss''],
         DEFAULT_STYLE_MODE u \<mapsto> [''a.scss'']] \<and>
      distinct (map fst (modeStyleUrls u opts)))"
proof (intro conjI allI impI)
  fix opts :: componentOptions and modes mode
  assume "styleUrls opts = Some (UrlsModes modes) \<and> mode \<noteq> DEFAULT_STYLE_MODE u"
  then show "map_of (modeStyleUrls u opts) mode =
        map_option (\<lambda>v. normalizeStyle (Some v)) (map_of modes mode)"
    by (simp add: map_of_modeStyleUrls_modes)
next
  fix opts :: componentOptions
  assume a: "styleUrls opts =
        Some (UrlsModes [(''ios'', StyleString ''b.scss''),
                         (''md'', StyleArray [''c.scss'', ''d.scss''])]) \<and>
      styleUrl opts = Some ''a.scss'' \<and>
      DEFAULT_STYLE_MODE u \<noteq> ''ios'' \<and> DEFAULT_STYLE_MODE u \<noteq> ''md''"
  then have d: "defaultModeStyles u opts = [''a.scss'']"
    by (simp add: defaultModeStyles_modes)
  show "map_of (modeStyleUrls u opts) =
        [''ios'' \<mapsto> [''b.scss''], ''md'' \<mapsto> [''c.scss'', ''d.scss''],
         DEFAULT_STYLE_MODE u \<mapsto> [''a.scss'']]"
    using a d by (auto simp: map_of_modeStyleUrls_modes fun_eq_iff)
next
  fix opts :: componentOptions
  show "distinct (map fst (modeStyleUrls u opts))" by (rule distinct_modeStyleUrls)
qed

text \<open>Claim C3, at a concrete input: the example of the claim, with the reserved mode \<^verbatim>\<open>$\<close>.\<close>

theorem per_mode_styleUrls_normalized_witness:
  "map_of
     (modeStyleUrls (exampleExternals exampleOptions)
        (exampleOptions
           \<lparr>styleUrl := Some ''a.scss'',
            styleUrls := Some (UrlsModes [(''ios'', StyleString ''b.scss''),
                                          (''md'', StyleArray [''c.scss'', ''d.scss''])])\<rparr>)) =
     [''ios'' \<mapsto> [''b.scss''], ''md'' \<mapsto> [''c.scss'', ''d.scss''], ''$'' \<mapsto> [''a.scss'']] \<and>
   distinct (map fst
     (modeStyleUrls (exampleExternals exampleOptions)
        (exampleOptions
           \<lparr>styleUrl := Some ''a.scss'',
            styleUrls := Some (UrlsModes [(''ios'', StyleString ''b.scss''),
                                          (''md'', StyleArray [''c.scss'', ''d.scss''])])\<rparr>))) \<and>
   map_of
     (modeStyleUrls (exampleExternals exampleOptions)
        (exampleOptions
           \<lparr>styleUrl := Some ''a.scss'',
            styleUrls := Some (UrlsModes [(''ios'', StyleString ''b.scss''),
                                          (''md'', StyleArray [''c.scss'', ''d.scss''])])\<rparr>)) ''ios'' =
     Some [''b.scss'']"
proof -
  let ?u = "exampleExternals exampleOptions"
  let ?modes = "[(''ios'', StyleString ''b.scss''), (''md'', StyleArray [''c.scss'', ''d.scss''])]"
  let ?o = "exampleOptions\<lparr>styleUrl := Some ''a.scss'', styleUrls := Some (UrlsModes ?modes)\<rparr>"
  note t = per_mode_styleUrls_normalized [of ?u]
  from t have g: "styleUrls ?o = Some (UrlsModes ?modes) \<and> ''ios'' \<noteq> DEFAULT_STYLE_MODE ?u \<longrightarrow>
      map_of (modeStyleUrls ?u ?o) ''ios'' =
        map_option (\<lambda>v. normalizeStyle (Some v)) (map_of ?modes ''ios'')"
    by blast
  from t have c: "styleUrls ?o = Some (UrlsModes ?modes) \<and> styleUrl ?o = Some ''a.scss'' \<and>
      DEFAULT_STYLE_MODE ?u \<noteq> ''ios'' \<and> DEFAULT_STYLE_MODE ?u \<noteq> ''md'' \<longrightarrow>
      map_of (modeStyleUrls ?u ?o) =
        [''ios'' \<mapsto> [''b.scss''], ''md'' \<mapsto> [''c.scss'', ''d.scss''],
         DEFAULT_STYLE_MODE ?u \<mapsto> [''a.scss'']] \<and>
      distinct (map fst (modeStyleUrls ?u ?o))"
    by blast
  from g c show ?thesis by simp
qed

text \<open>
  Claim C10. When \<^verbatim>\<open>styleUrls\<close> is an object of modes that has the reserved mode
  among its keys, the list of the reserved mode in the normalized object is the
  normalized entry of the object followed by \<^verbatim>\<open>styleUrl\<close> (when that is a non-empty
  string). The combined list takes the place of the entry: the reserved mode occurs once
  and the keys are those of the object. The compiled object has the same list, each path
  compiled, and both objects are what the pass emits after validation.
\<close>

theorem default_mode_entry_combined_with_styleUrl:
  assumes "styleUrls opts = Some (UrlsModes modes)"
    and "map_of modes (DEFAULT_STYLE_MODE u) = Some entry"
  shows "map_of (modeStyleUrls u opts) (DEFAULT_STYLE_MODE u) =
           Some (normalizeStyle (Some entry) @
                 (case styleUrl opts of
                    None \<Rightarrow> []
                  | Some path \<Rightarrow> if path \<noteq> [] then [path] else [])) \<and>
         distinct (map fst (modeStyleUrls u opts)) \<and>
         fst ` set (modeStyleUrls u opts) = fst ` set modes \<and>
         map_of (normalizeExtension config (modeStyleUrls u opts)) (DEFAULT_STYLE_MODE u) =
           Some (map (useCss config)
                  (normalizeStyle (Some entry) @
                   (case styleUrl opts of
                      None \<Rightarrow> []
                    | Some path \<Rightarrow> if path \<noteq> [] then [path] else []))) \<and>
         (first (getDeclarationParameters u dec) = Some (Some opts) \<and>
          fst (validateComponent u config diags tc opts
                 (removeDecorators cls (CLASS_DECORATORS_TO_REMOVE u)) dec) = Inr True \<longrightarrow>
          (\<exists>before after.
             newMembersAfter (componentDecoratorToStatic u config tc diags cls ms dec) =
               ms @ before @
               [StaticGetter ''originalStyleUrls'' (ObjectLiteral (modeStyleUrls u opts)),
                StaticGetter ''styleUrls''
                  (ObjectLiteral (normalizeExtension config (modeStyleUrls u opts)))] @ after))"
proof -
  have k: "DEFAULT_STYLE_MODE u \<in> fst ` set modes"
    using assms(2) by (metis domI dom_map_of_conv_image_fst)
  have 1: "map_of (modeStyleUrls u opts) (DEFAULT_STYLE_MODE u) =
           Some (normalizeStyle (Some entry) @
                 (case styleUrl opts of
                    None \<Rightarrow> []
                  | Some path \<Rightarrow> if path \<noteq> [] then [path] else []))"
    using assms by (simp add: map_of_modeStyleUrls_modes defaultModeStyles_modes)
  have 2: "fst ` set (modeStyleUrls u opts) = fst ` set modes"
    using k by (auto simp: keys_modeStyleUrls_modes [OF assms(1)])
  from 1 have 3: "modeStyleUrls u opts \<noteq> []" by auto
  have 4: "\<exists>before after.
             newMembersAfter (componentDecoratorToStatic u config tc diags cls ms dec) =
               ms @ before @
               [StaticGetter ''originalStyleUrls'' (ObjectLiteral (modeStyleUrls u opts)),
                StaticGetter ''styleUrls''
                  (ObjectLiteral (normalizeExtension config (modeStyleUrls u opts)))] @ after"
    if "first (getDeclarationParameters u dec) = Some (Some opts)"
      and "fst (validateComponent u config diags tc opts
                 (removeDecorators cls (CLASS_DECORATORS_TO_REMOVE u)) dec) = Inr True"
    using pass_emits_styleUrls [OF that 3] .
  show ?thesis
    using 1 2 4 by (simp add: distinct_modeStyleUrls map_of_normalizeExtension)
qed

text \<open>
  Claim C10, at a concrete input:
  \<^verbatim>\<open>styleUrls: { $: ["x.scss", "y.scss"], ios: "b.scss" }\<close> with
  \<^verbatim>\<open>styleUrl: "a.scss"\<close>.
\<close>

theorem default_mode_entry_combined_with_styleUrl_witness:
  "map_of
     (modeStyleUrls (exampleExternals exampleOptions)
        (exampleOptions
           \<lparr>styleUrl := Some ''a.scss'',
            styleUrls := Some (UrlsModes [(''$'', StyleArray [''x.scss'', ''y.scss'']),
                                          (''ios'', StyleString ''b.scss'')])\<rparr>)) ''$'' =
     Some [''x.scss'', ''y.scss'', ''a.scss''] \<and>
   map_of
     (normalizeExtension (exampleConfig False)
        (modeStyleUrls (exampleExternals exampleOptions)
           (exampleOptions
              \<lparr>styleUrl := Some ''a.scss'',
               styleUrls := Some (UrlsModes [(''$'', StyleArray [''x.scss'', ''y.scss'']),
                                             (''ios'', StyleString ''b.scss'')])\<rparr>))) ''$'' =
     Some [''x.css'', ''y.css'', ''a.css''] \<and>
   fst ` set
     (modeStyleUrls (exampleExternals exampleOptions)
        (exampleOptions
           \<lparr>styleUrl := Some ''a.scss'',
            styleUrls := Some (UrlsModes [(''$'', StyleArray [''x.scss'', ''y.scss'']),
                                          (''ios'', StyleString ''b.scss'')])\<rparr>)) =
     {''$'', ''ios''}"
proof -
  let ?modes = "[(''$'', StyleArray [''x.scss'', ''y.scss'']), (''ios'', StyleString ''b.scss'')]"
  let ?o = "exampleOptions\<lparr>styleUrl := Some ''a.scss'', styleUrls := Some (UrlsModes ?modes)\<rparr>"
  have c: "map (useCss (exampleConfig False)) [''x.scss'', ''y.scss'', ''a.scss''] =
             [''x.css'', ''y.css'', ''a.css'']"
    by code_simp
  have h1: "styleUrls ?o = Some (UrlsModes ?modes)" by simp
  have h2: "map_of ?modes (DEFAULT_STYLE_MODE (exampleExternals exampleOptions)) =
              Some (StyleArray [''x.scss'', ''y.scss''])"
    by simp
  from default_mode_entry_combined_with_styleUrl
    [OF h1 h2, where config = "exampleConfig False"] c
  show ?thesis by simp
qed

text \<open>
  Claim C8. The compiled object has, at every mode, the list of the original object with
  \<open>useCss\<close> applied to each path on its own, and \<open>useCss\<close> joins the directory of the
  path with its base name without the extension, followed by \<^verbatim>\<open>.css\<close>. For the
  normalized object of any options this is the same keys in the same order. Given
  \<^verbatim>\<open>styleUrl: "a.scss"\<close> and no \<^verbatim>\<open>styleUrls\<close>, on a host whose path functions take
  \<^verbatim>\<open>a.scss\<close> apart into the directory \<^verbatim>\<open>.\<close>, the extension \<^verbatim>\<open>.scss\<close> and the base
  name \<^verbatim>\<open>a\<close>, and join \<^verbatim>\<open>.\<close> and \<^verbatim>\<open>a.css\<close> to \<^verbatim>\<open>a.css\<close>, the pass emits
  \<^verbatim>\<open>originalStyleUrls\<close> with the reserved mode and \<^verbatim>\<open>["a.scss"]\<close>, and
  \<^verbatim>\<open>styleUrls\<close> with the reserved mode and \<^verbatim>\<open>["a.css"]\<close>.
\<close>

theorem compiled_styleUrls_replace_extension:
  "(\<forall>urls mode. map_of (normalizeExtension config urls) mode =
                   map_option (map (useCss config)) (map_of urls mode)) \<and>
   (\<forall>p. useCss config p =
          path_join config (path_dirname config p)
            (path_basename config p (path_extname config p) @ ''.css'')) \<and>
   normalizeExtension config (modeStyleUrls u opts) =
     map (\<lambda>(mode, paths). (mode, map (useCss config) paths)) (modeStyleUrls u opts) \<and>
   (first (getDeclarationParameters u dec) = Some (Some opts) \<and>
    fst (validateComponent u config diags tc opts
           (removeDecorators cls (CLASS_DECORATORS_TO_REMOVE u)) dec) = Inr True \<and>
    styleUrl opts = Some ''a.scss'' \<and> styleUrls opts = None \<and>
    path_dirname config ''a.scss'' = ''.'' \<and> path_extname config ''a.scss'' = ''.scss'' \<and>
    path_basename config ''a.scss'' ''.scss'' = ''a'' \<and> path_join config ''.'' ''a.css'' = ''a.css'' \<longrightarrow>
    (\<exists>before after.
       newMembersAfter (componentDecoratorToStatic u config tc diags cls ms dec) =
         ms @ before @
         [StaticGetter ''originalStyleUrls'' (ObjectLiteral [(DEFAULT_STYLE_MODE u, [''a.scss''])]),
          StaticGetter ''styleUrls'' (ObjectLiteral [(DEFAULT_STYLE_MODE u, [''a.css''])])] @
         after))"
proof (intro conjI allI impI)
  fix urls mode
  show "map_of (normalizeExtension config urls) mode =
          map_option (map (useCss config)) (map_of urls mode)"
    by (rule map_of_normalizeExtension)
next
  fix p
  show "useCss config p =
          path_join config (path_dirname config p)
            (path_basename config p (path_extname config p) @ ''.css'')"
    by (simp add: useCss_def)
next
  show "normalizeExtension config (modeStyleUrls u opts) =
     map (\<lambda>(mode, paths). (mode, map (useCss config) paths)) (modeStyleUrls u opts)"
    by (rule normalizeExtension_distinct [OF distinct_modeStyleUrls])
next
  assume a: "first (getDeclarationParameters u dec) = Some (Some opts) \<and>
    fst (validateComponent u config diags tc opts
           (removeDecorators cls (CLASS_DECORATORS_TO_REMOVE u)) dec) = Inr True \<and>
    styleUrl opts = Some ''a.scss'' \<and> styleUrls opts = None \<and>
    path_dirname config ''a.scss'' = ''.'' \<and> path_extname config ''a.scss'' = ''.scss'' \<and>
    path_basename config ''a.scss'' ''.scss'' = ''a'' \<and> path_join config ''.'' ''a.css'' = ''a.css''"
  then have m: "modeStyleUrls u opts = [(DEFAULT_STYLE_MODE u, [''a.scss''])]"
    by (simp add: modeStyleUrls_def defaultModeStyles_def)
  have c: "useCss config ''a.scss'' = ''a.css''"
    using a by (simp add: useCss_def)
  from a have p: "first (getDeclarationParameters u dec) = Some (Some opts)"
    and v: "fst (validateComponent u config diags tc opts
           (removeDecorators cls (CLASS_DECORATORS_TO_REMOVE u)) dec) = Inr True"
    by simp_all
  from m have "modeStyleUrls u opts \<noteq> []" by simp
  from pass_emits_styleUrls [OF p v this, of ms] m c
  show "\<exists>before after.
       newMembersAfter (componentDecoratorToStatic u config tc diags cls ms dec) =
         ms @ before @
         [StaticGetter ''originalStyleUrls'' (ObjectLiteral [(DEFAULT_STYLE_MODE u, [''a.scss''])]),
          StaticGetter ''styleUrls'' (ObjectLiteral [(DEFAULT_STYLE_MODE u, [''a.css''])])] @
         after"
    by (simp add: normalizeExtension_single)
qed

text \<open>
  Claim C8, at concrete inputs: an object with two modes, a path in a directory, and the
  pass on \<^verbatim>\<open>styleUrl: "a.scss"\<close> with the example host.
\<close>

theorem compiled_styleUrls_replace_extension_witness:
  "map_of
     (normalizeExtension (exampleConfig False)
        [(''ios'', [''src/b.scss'']), (''md'', [''c.less'', ''d''])]) ''md'' =
     Some [''c.css'', ''d.css''] \<and>
   useCss (exampleConfig False) ''src/b.scss'' = ''src/b.css'' \<and>
   normalizeExtension (exampleConfig False)
     (modeStyleUrls (exampleExternals (exampleOptions\<lparr>styleUrl := Some ''a.scss''\<rparr>))
        (exampleOptions\<lparr>styleUrl := Some ''a.scss''\<rparr>)) =
     [(''$'', [''a.css''])] \<and>
   (\<exists>before after.
      newMembersAfter
        (componentDecoratorToStatic
           (exampleExternals (exampleOptions\<lparr>styleUrl := Some ''a.scss''\<rparr>))
           (exampleConfig False) (exampleChecker [interfaceSymbol]) [] (exampleClass None)
           [OtherElement 0] exampleDecorator) =
        [OtherElement 0] @ before @
        [StaticGetter ''originalStyleUrls'' (ObjectLiteral [(''$'', [''a.scss''])]),
         StaticGetter ''styleUrls'' (ObjectLiteral [(''$'', [''a.css''])])] @ after)"
proof -
  let ?o = "exampleOptions\<lparr>styleUrl := Some ''a.scss''\<rparr>"
  let ?u = "exampleExternals ?o"
  let ?c = "exampleConfig False"
  note t = compiled_styleUrls_replace_extension
    [where config = ?c and u = ?u and opts = ?o and dec = exampleDecorator and diags = "[]"
       and tc = "exampleChecker [interfaceSymbol]" and cls = "exampleClass None"
       and ms = "[OtherElement 0]"]
  have v: "fst (validateComponent ?u ?c [] (exampleChecker [interfaceSymbol]) ?o
             (removeDecorators (exampleClass None) (CLASS_DECORATORS_TO_REMOVE ?u))
             exampleDecorator) = Inr True"
    by code_simp
  have p: "path_dirname ?c ''a.scss'' = ''.''" "path_extname ?c ''a.scss'' = ''.scss''"
    "path_basename ?c ''a.scss'' ''.scss'' = ''a''" "path_join ?c ''.'' ''a.css'' = ''a.css''"
    by code_simp+
  have e: "path_join ?c (path_dirname ?c ''src/b.scss'')
             (path_basename ?c ''src/b.scss'' (path_extname ?c ''src/b.scss'') @ ''.css'') =
           ''src/b.css''"
    by code_simp
  have m: "map (useCss ?c) [''c.less'', ''d''] = [''c.css'', ''d.css'']"
    by code_simp
  have s: "map (\<lambda>(mode, paths). (mode, map (useCss ?c) paths)) (modeStyleUrls ?u ?o) =
             [(''$'', [''a.css''])]"
    by code_simp
  from t [THEN conjunct1, rule_format,
      of "[(''ios'', [''src/b.scss'']), (''md'', [''c.less'', ''d''])]" "''md''"] m
  have 1: "map_of (normalizeExtension ?c
                     [(''ios'', [''src/b.scss'']), (''md'', [''c.less'', ''d''])]) ''md'' =
     Some [''c.css'', ''d.css'']"
    by simp
  from t [THEN conjunct2, THEN conjunct1, rule_format, of "''src/b.scss''"] e
  have 2: "useCss ?c ''src/b.scss'' = ''src/b.css''" by simp
  from t [THEN conjunct2, THEN conjunct2, THEN conjunct1] s
  have 3: "normalizeExtension ?c (modeStyleUrls ?u ?o) = [(''$'', [''a.css''])]" by simp
  from t [THEN conjunct2, THEN conjunct2, THEN conjunct2] v p
  have 4: "\<exists>before after.
      newMembersAfter
        (componentDecoratorToStatic ?u ?c (exampleChecker [interfaceSymbol]) [] (exampleClass None)
           [OtherElement 0] exampleDecorator) =
        [OtherElement 0] @ before @
        [StaticGetter ''originalStyleUrls'' (ObjectLiteral [(''$'', [''a.scss''])]),
         StaticGetter ''styleUrls'' (ObjectLiteral [(''$'', [''a.css''])])] @ after"
    by (simp add: exampleOptions_def)
  from 1 2 3 4 show ?thesis by blast
qed

section \<open>The claims about validation\<close>

text \<open>
  Where no offending export makes the loop throw, it appends one diagnostic for each of
  them, in their order, and validation returns false exactly when there is one. In test
  mode the check is skipped.
\<close>

lemma reportExports_no_fault:
  assumes "\<forall>s \<in> set offending. \<exists>n. errorNode s = Inr n"
  shows "reportExports offending diags =
           (None, diags @ map (\<lambda>s. \<lparr>messageText = exportsMessage,
                                      node = (case errorNode s of Inr n \<Rightarrow> n | Inl f \<Rightarrow> None)\<rparr>)
                            offending)"
  using assms by (induction offending arbitrary: diags) (auto simp: report_def)

lemma validateExports_no_fault:
  assumes "\<not> isTesting config"
    and "nonTypeExports tc cls = Inr offending"
    and "\<forall>s \<in> set offending. \<exists>n. errorNode s = Inr n"
  shows "validateExports config diags tc cls =
           (Inr (offending = []),
            diags @ map (\<lambda>s. \<lparr>messageText = exportsMessage,
                               node = (case errorNode s of Inr n \<Rightarrow> n | Inl f \<Rightarrow> None)\<rparr>)
                      offending)"
  using assms(1,2) reportExports_no_fault [OF assms(3), of diags]
  by (simp add: validateExports_def)

lemma validateExports_testing:
  "isTesting config \<Longrightarrow> validateExports config diags tc cls = (Inr True, diags)"
  by (simp add: validateExports_def)

text \<open>
  Claim C7. A class declaration with an \<^verbatim>\<open>extends\<close> heritage clause fails validation:
  \<open>validateComponent\<close> returns false and appends one diagnostic, bound to the (first)
  \<^verbatim>\<open>extends\<close> clause, whatever the options, the configuration, the exports and the
  decorator are.
\<close>

theorem extends_clause_fails_validation:
  assumes "heritageClauses cls = Some clauses"
    and "c \<in> set clauses"
    and "token c = Some ExtendsKeyword"
  shows "\<exists>e. find (\<lambda>x. token x = Some ExtendsKeyword) clauses = Some e \<and>
           validateComponent u config diags tc opts cls dec =
             (Inr False, diags @ [\<lparr>messageText = extendsMessage, node = Some e\<rparr>])"
proof -
  from assms(2,3) obtain e where e: "find (\<lambda>x. token x = Some ExtendsKeyword) clauses = Some e"
    by (cases "find (\<lambda>x. token x = Some ExtendsKeyword) clauses") (auto simp: find_None_iff)
  then show ?thesis
    using assms(1) by (simp add: validateComponent_def report_def)
qed

text \<open>
  Claim C7, at a concrete input: a class that implements one interface and extends a base
  class, with options that break two more rules (no tag, \<^verbatim>\<open>shadow\<close> and \<^verbatim>\<open>scoped\<close>
  together).
\<close>

theorem extends_clause_fails_validation_witness:
  "validateComponent (exampleExternals exampleOptions) (exampleConfig True) [] (exampleChecker [])
     (exampleOptions\<lparr>tag := None, shadow := True, scoped := True\<rparr>)
     (exampleClass (Some [HeritageClause 5 ImplementsKeyword, HeritageClause 7 ExtendsKeyword]))
     exampleDecorator =
   (Inr False, [\<lparr>messageText = extendsMessage, node = Some (HeritageClause 7 ExtendsKeyword)\<rparr>])"
  using extends_clause_fails_validation
    [where cls = "exampleClass (Some [HeritageClause 5 ImplementsKeyword, HeritageClause 7 ExtendsKeyword])"
       and clauses = "[HeritageClause 5 ImplementsKeyword, HeritageClause 7 ExtendsKeyword]"
       and c = "HeritageClause 7 ExtendsKeyword"
       and u = "exampleExternals exampleOptions" and config = "exampleConfig True" and diags = "[]"
       and tc = "exampleChecker []"
       and opts = "exampleOptions\<lparr>tag := None, shadow := True, scoped := True\<rparr>"
       and dec = exampleDecorator]
  by (simp add: exampleClass_def)

text \<open>
  Claim C4, at the input where the code departs from it. The module exports the class,
  \<^verbatim>\<open>export const helper\<close> and \<^verbatim>\<open>export function other\<close>, outside test mode. Both
  other exports offend, so the claim promises two diagnostics and the result false. The
  code appends the diagnostic for \<^verbatim>\<open>helper\<close>, then throws while it reads
  \<^verbatim>\<open>modifiers[0]\<close> of a declaration without modifiers: the diagnostic stays unbound,
  \<^verbatim>\<open>other\<close> is never diagnosed and nothing is returned.
\<close>

theorem export_check_throws_on_declaration_without_modifiers:
  "nonTypeExports (exampleChecker [constSymbol, functionSymbol]) (exampleClass None) =
     Inr [constSymbol, functionSymbol] \<and>
   validateComponent (exampleExternals exampleOptions) (exampleConfig False) []
     (exampleChecker [constSymbol, functionSymbol]) exampleOptions (exampleClass None)
     exampleDecorator =
   (Inl TypeError, [\<lparr>messageText = exportsMessage, node = None\<rparr>])"
  by code_simp

text \<open>
  Claim C6, as stated, at a concrete input: \<^verbatim>\<open>shadow\<close> and \<^verbatim>\<open>scoped\<close> are both true
  and the class extends a base class. The \<^verbatim>\<open>scoped\<close> argument can be located (it is the
  node at 19), but the one diagnostic of the pass is the one of the inheritance check,
  which comes first, and it is bound to the heritage clause: neither to the \<^verbatim>\<open>scoped\<close>
  argument nor to the decorator.
\<close>

theorem scoped_binding_counterexample:
  "diagnosticsAfter
     (componentDecoratorToStatic
        (exampleExternals (exampleOptions\<lparr>shadow := True, scoped := True\<rparr>))
        (exampleConfig False) (exampleChecker []) []
        (exampleClass (Some [HeritageClause 7 ExtendsKeyword])) [] exampleDecorator) =
     [\<lparr>messageText = extendsMessage, node = Some (HeritageClause 7 ExtendsKeyword)\<rparr>] \<and>
   findTagNode ''scoped'' exampleDecorator = Inr (OtherNode 19) \<and>
   HeritageClause 7 ExtendsKeyword \<noteq> OtherNode 19 \<and>
   HeritageClause 7 ExtendsKeyword \<noteq> exampleDecorator"
  by code_simp

text \<open>
  Claim C6, amended. For every configuration with \<^verbatim>\<open>shadow\<close> and \<^verbatim>\<open>scoped\<close> both
  true, the pass returns without a fault, appends no member and appends exactly one
  diagnostic. When the class has an \<^verbatim>\<open>extends\<close> clause it is the diagnostic of the
  inheritance check, bound to that clause. Otherwise it is the diagnostic of mutual
  exclusivity, bound to the \<^verbatim>\<open>scoped\<close> argument where that can be located (the
  initializer of the last property assignment named \<^verbatim>\<open>scoped\<close> in an object literal
  that is the first argument of the decorator), and to the whole decorator where it
  cannot.
\<close>

theorem shadow_and_scoped_one_diagnostic:
  assumes "first (getDeclarationParameters u dec) = Some (Some opts)"
    and "shadow opts" and "scoped opts"
  shows "thrown (componentDecoratorToStatic u config tc diags cls ms dec) = None \<and>
         newMembersAfter (componentDecoratorToStatic u config tc diags cls ms dec) = ms \<and>
         diagnosticsAfter (componentDecoratorToStatic u config tc diags cls ms dec) =
           diags @
           [case (case heritageClauses cls of
                    None \<Rightarrow> None
                  | Some clauses \<Rightarrow> find (\<lambda>c. token c = Some ExtendsKeyword) clauses) of
              Some extendNode \<Rightarrow> \<lparr>messageText = extendsMessage, node = Some extendNode\<rparr>
            | None \<Rightarrow>
                \<lparr>messageText = exclusiveMessage,
                 node = Some
                   (case dec of
                      Decorator i (CallExpression j callee
                          (ObjectLiteralExpression k props # rest)) \<Rightarrow>
                        last (dec # [initializer. PropertyAssignment l pname initializer \<leftarrow> props,
                                       pname = ''scoped''])
                    | _ \<Rightarrow> dec)\<rparr>]"
  using assms findTagNode_with_parameters [OF assms(1), of "''scoped''"]
  by (simp add: componentDecoratorToStatic_def validateComponent_def removeDecorators_def
      report_def Let_def split: option.splits)

text \<open>
  Claim C6, amended, at a concrete input: \<^verbatim>\<open>shadow\<close> and \<^verbatim>\<open>scoped\<close> both true on a
  class without heritage clauses.
\<close>

theorem shadow_and_scoped_one_diagnostic_witness:
  "thrown
     (componentDecoratorToStatic
        (exampleExternals (exampleOptions\<lparr>shadow := True, scoped := True\<rparr>))
        (exampleConfig False) (exampleChecker []) [] (exampleClass None) [OtherElement 0]
        exampleDecorator) = None \<and>
   newMembersAfter
     (componentDecoratorToStatic
        (exampleExternals (exampleOptions\<lparr>shadow := True, scoped := True\<rparr>))
        (exampleConfig False) (exampleChecker []) [] (exampleClass None) [OtherElement 0]
        exampleDecorator) = [OtherElement 0] \<and>
   diagnosticsAfter
     (componentDecoratorToStatic
        (exampleExternals (exampleOptions\<lparr>shadow := True, scoped := True\<rparr>))
        (exampleConfig False) (exampleChecker []) [] (exampleClass None) [OtherElement 0]
        exampleDecorator) =
     [\<lparr>messageText = exclusiveMessage, node = Some (OtherNode 19)\<rparr>]"
  using shadow_and_scoped_one_diagnostic
    [where u = "exampleExternals (exampleOptions\<lparr>shadow := True, scoped := True\<rparr>)"
       and opts = "exampleOptions\<lparr>shadow := True, scoped := True\<rparr>"
       and dec = exampleDecorator and config = "exampleConfig False" and diags = "[]"
       and tc = "exampleChecker []" and cls = "exampleClass None" and ms = "[OtherElement 0]",
     OF example_parameters]
  by (simp add: exampleClass_def exampleDecorator_def)

section \<open>The claims about the pass as a whole\<close>

text \<open>
  Claim C2. For options decoded from the decorator: when validation passes, the pass
  returns without a fault and appends to the list of the caller, in this order, \<^verbatim>\<open>is\<close>
  with the trimmed tag, \<^verbatim>\<open>encapsulation\<close> (when \<^verbatim>\<open>shadow\<close> or \<^verbatim>\<open>scoped\<close> is set),
  \<^verbatim>\<open>originalStyleUrls\<close> and \<^verbatim>\<open>styleUrls\<close> (when the normalized object has a key),
  \<^verbatim>\<open>assetsDirs\<close> (when the list of directories is not empty) and \<^verbatim>\<open>styles\<close> (when
  the trimmed text is not empty). When validation does not pass, the pass appends
  nothing, so \<^verbatim>\<open>is\<close> is missing only then.
\<close>

theorem synthesized_members_in_fixed_order:
  assumes "first (getDeclarationParameters u dec) = Some (Some opts)"
  shows "(fst (validateComponent u config diags tc opts
                 (removeDecorators cls (CLASS_DECORATORS_TO_REMOVE u)) dec) = Inr True \<longrightarrow>
          (\<exists>t. tag opts = Some t \<and>
             thrown (componentDecoratorToStatic u config tc diags cls ms dec) = None \<and>
             newMembersAfter (componentDecoratorToStatic u config tc diags cls ms dec) =
               ms @
               [StaticGetter ''is'' (StringLiteral (trim t))] @
               (if shadow opts then [StaticGetter ''encapsulation'' (StringLiteral ''shadow'')]
                else if scoped opts then [StaticGetter ''encapsulation'' (StringLiteral ''scoped'')]
                else []) @
               (if modeStyleUrls u opts \<noteq> [] then
                  [StaticGetter ''originalStyleUrls'' (ObjectLiteral (modeStyleUrls u opts)),
                   StaticGetter ''styleUrls''
                     (ObjectLiteral (normalizeExtension config (modeStyleUrls u opts)))]
                else []) @
               (if (case assetsDirs opts of None \<Rightarrow> [] | Some ds \<Rightarrow> ds) @
                   (case assetsDir opts of None \<Rightarrow> [] | Some d \<Rightarrow> if d \<noteq> [] then [d] else []) \<noteq> []
                then [StaticGetter ''assetsDirs'' (ArrayLiteral
                        ((case assetsDirs opts of None \<Rightarrow> [] | Some ds \<Rightarrow> ds) @
                         (case assetsDir opts of None \<Rightarrow> [] | Some d \<Rightarrow> if d \<noteq> [] then [d] else [])))]
                else []) @
               (case styles opts of
                  None \<Rightarrow> []
                | Some text \<Rightarrow>
                    if trim text \<noteq> [] then [StaticGetter ''styles'' (StringLiteral (trim text))]
                    else []))) \<and>
         (fst (validateComponent u config diags tc opts
                 (removeDecorators cls (CLASS_DECORATORS_TO_REMOVE u)) dec) \<noteq> Inr True \<longrightarrow>
          newMembersAfter (componentDecoratorToStatic u config tc diags cls ms dec) = ms)"
proof (intro conjI impI)
  assume ok: "fst (validateComponent u config diags tc opts
                 (removeDecorators cls (CLASS_DECORATORS_TO_REMOVE u)) dec) = Inr True"
  from pass_valid [OF assms ok, of ms] obtain t ms' where
    t: "tag opts = Some t" and m: "staticMembers u config opts ms = Inr ms'"
    and p: "componentDecoratorToStatic u config tc diags cls ms dec =
       \<lparr>thrown = None, cmpNodeAfter = removeDecorators cls (CLASS_DECORATORS_TO_REMOVE u),
        diagnosticsAfter =
          snd (validateComponent u config diags tc opts
                 (removeDecorators cls (CLASS_DECORATORS_TO_REMOVE u)) dec),
        newMembersAfter = ms'\<rparr>"
    by blast
  from m staticMembers_Some [OF t, of u config ms] p t
  show "\<exists>t. tag opts = Some t \<and>
             thrown (componentDecoratorToStatic u config tc diags cls ms dec) = None \<and>
             newMembersAfter (componentDecoratorToStatic u config tc diags cls ms dec) =
               ms @
               [StaticGetter ''is'' (StringLiteral (trim t))] @
               (if shadow opts then [StaticGetter ''encapsulation'' (StringLiteral ''shadow'')]
                else if scoped opts then [StaticGetter ''encapsulation'' (StringLiteral ''scoped'')]
                else []) @
               (if modeStyleUrls u opts \<noteq> [] then
                  [StaticGetter ''originalStyleUrls'' (ObjectLiteral (modeStyleUrls u opts)),
                   StaticGetter ''styleUrls''
                     (ObjectLiteral (normalizeExtension config (modeStyleUrls u opts)))]
                else []) @
               (if (case assetsDirs opts of None \<Rightarrow> [] | Some ds \<Rightarrow> ds) @
                   (case assetsDir opts of None \<Rightarrow> [] | Some d \<Rightarrow> if d \<noteq> [] then [d] else []) \<noteq> []
                then [StaticGetter ''assetsDirs'' (ArrayLiteral
                        ((case assetsDirs opts of None \<Rightarrow> [] | Some ds \<Rightarrow> ds) @
                         (case assetsDir opts of None \<Rightarrow> [] | Some d \<Rightarrow> if d \<noteq> [] then [d] else [])))]
                else []) @
               (case styles opts of
                  None \<Rightarrow> []
                | Some text \<Rightarrow>
                    if trim text \<noteq> [] then [StaticGetter ''styles'' (StringLiteral (trim text))]
                    else [])"
    by simp
next
  assume "fst (validateComponent u config diags tc opts
                 (removeDecorators cls (CLASS_DECORATORS_TO_REMOVE u)) dec) \<noteq> Inr True"
  then show "newMembersAfter (componentDecoratorToStatic u config tc diags cls ms dec) = ms"
    by (rule pass_invalid [OF assms])
qed

text \<open>
  Claim C2, at concrete inputs: options that set every field, in a module that also
  exports an interface, with one member already in the list of the caller; and the same
  options with the tag \<^verbatim>\<open>mycmp\<close>, which the checker of tag names rejects.
\<close>

theorem synthesized_members_in_fixed_order_witness:
  "newMembersAfter
     (componentDecoratorToStatic (exampleExternals fullOptions) (exampleConfig False)
        (exampleChecker [interfaceSymbol]) [] (exampleClass None) [OtherElement 0]
        exampleDecorator) =
     [OtherElement 0,
      StaticGetter ''is'' (StringLiteral ''my-cmp''),
      StaticGetter ''encapsulation'' (StringLiteral ''shadow''),
      StaticGetter ''originalStyleUrls''
        (ObjectLiteral [(''ios'', [''b.scss'']), (''$'', [''a.scss''])]),
      StaticGetter ''styleUrls'' (ObjectLiteral [(''ios'', [''b.css'']), (''$'', [''a.css''])]),
      StaticGetter ''assetsDirs'' (ArrayLiteral [''fonts'', ''img'']),
      StaticGetter ''styles'' (StringLiteral '':host { }'')] \<and>
   newMembersAfter
     (componentDecoratorToStatic (exampleExternals (fullOptions\<lparr>tag := Some ''mycmp''\<rparr>))
        (exampleConfig False) (exampleChecker [interfaceSymbol]) [] (exampleClass None)
        [OtherElement 0] exampleDecorator) =
     [OtherElement 0]"
proof -
  let ?u = "exampleExternals fullOptions"
  let ?bad = "fullOptions\<lparr>tag := Some ''mycmp''\<rparr>"
  have v: "fst (validateComponent ?u (exampleConfig False) [] (exampleChecker [interfaceSymbol])
             fullOptions
             (removeDecorators (exampleClass None) (CLASS_DECORATORS_TO_REMOVE ?u))
             exampleDecorator) = Inr True"
    by code_simp
  have w: "fst (validateComponent (exampleExternals ?bad) (exampleConfig False) []
             (exampleChecker [interfaceSymbol]) ?bad
             (removeDecorators (exampleClass None)
                (CLASS_DECORATORS_TO_REMOVE (exampleExternals ?bad)))
             exampleDecorator) \<noteq> Inr True"
    by code_simp
  have t: "trim ''  my-cmp '' = ''my-cmp''" and s: "trim '' :host { } '' = '':host { }''"
    by code_simp+
  have m: "modeStyleUrls ?u fullOptions = [(''ios'', [''b.scss'']), (''$'', [''a.scss''])]"
    by code_simp
  have e: "normalizeExtension (exampleConfig False) [(''ios'', [''b.scss'']), (''$'', [''a.scss''])] =
             [(''ios'', [''b.css'']), (''$'', [''a.css''])]"
    by code_simp
  have 1: "newMembersAfter
     (componentDecoratorToStatic ?u (exampleConfig False)
        (exampleChecker [interfaceSymbol]) [] (exampleClass None) [OtherElement 0]
        exampleDecorator) =
     [OtherElement 0,
      StaticGetter ''is'' (StringLiteral ''my-cmp''),
      StaticGetter ''encapsulation'' (StringLiteral ''shadow''),
      StaticGetter ''originalStyleUrls''
        (ObjectLiteral [(''ios'', [''b.scss'']), (''$'', [''a.scss''])]),
      StaticGetter ''styleUrls'' (ObjectLiteral [(''ios'', [''b.css'']), (''$'', [''a.css''])]),
      StaticGetter ''assetsDirs'' (ArrayLiteral [''fonts'', ''img'']),
      StaticGetter ''styles'' (StringLiteral '':host { }'')]"
    using synthesized_members_in_fixed_order
      [where u = ?u and dec = exampleDecorator and opts = fullOptions
         and config = "exampleConfig False" and diags = "[]"
         and tc = "exampleChecker [interfaceSymbol]" and cls = "exampleClass None"
         and ms = "[OtherElement 0]", OF example_parameters] v t s m e
    by (simp add: fullOptions_def)
  have 2: "newMembersAfter
     (componentDecoratorToStatic (exampleExternals ?bad)
        (exampleConfig False) (exampleChecker [interfaceSymbol]) [] (exampleClass None)
        [OtherElement 0] exampleDecorator) =
     [OtherElement 0]"
    using synthesized_members_in_fixed_order
      [where u = "exampleExternals ?bad" and dec = exampleDecorator and opts = ?bad
         and config = "exampleConfig False" and diags = "[]"
         and tc = "exampleChecker [interfaceSymbol]" and cls = "exampleClass None"
         and ms = "[OtherElement 0]", OF example_parameters] w
    by simp
  from 1 2 show ?thesis by simp
qed

text \<open>
  Claim C5, at the input where the code departs from it. For a module that exports the
  class and \<^verbatim>\<open>export const helper\<close>, outside test mode and with valid options, the
  pass does not return: it throws a \<^verbatim>\<open>TypeError\<close>.
\<close>

theorem pass_throws_on_exported_const:
  "thrown (componentDecoratorToStatic (exampleExternals exampleOptions) (exampleConfig False)
     (exampleChecker [constSymbol]) [] (exampleClass None) [] exampleDecorator) = Some TypeError"
  by code_simp

text \<open>
  Claim C9, as stated, at a concrete input: a class that extends a base class.
  Validation fails and no member is appended, and yet the decorator is gone from the
  decorator list of the class after the pass: the list is not left as it was.
\<close>

theorem decorators_left_on_failure_counterexample:
  "fst (validateComponent (exampleExternals exampleOptions) (exampleConfig False) []
          (exampleChecker []) exampleOptions
          (removeDecorators (exampleClass (Some [HeritageClause 7 ExtendsKeyword])) [''Component''])
          exampleDecorator) = Inr False \<and>
   newMembersAfter
     (componentDecoratorToStatic (exampleExternals exampleOptions) (exampleConfig False)
        (exampleChecker []) [] (exampleClass (Some [HeritageClause 7 ExtendsKeyword])) []
        exampleDecorator) = [] \<and>
   decorators (exampleClass (Some [HeritageClause 7 ExtendsKeyword])) = Some [exampleDecorator] \<and>
   decorators
     (cmpNodeAfter
        (componentDecoratorToStatic (exampleExternals exampleOptions) (exampleConfig False)
           (exampleChecker []) [] (exampleClass (Some [HeritageClause 7 ExtendsKeyword])) []
           exampleDecorator)) = Some []"
  by code_simp

text \<open>
  Claim C9, amended. Removing the decorators named in \<^verbatim>\<open>CLASS_DECORATORS_TO_REMOVE\<close>
  is the first step of the pass, on every invocation: the class after the pass is the
  class with these decorators removed, whether options were decoded or not and whether
  validation passed, failed or threw; validation itself already runs on the class without
  them; and a component decorator whose name is in the list is not in the decorator list
  of the class afterwards.
\<close>

theorem decorators_removed_first_on_every_invocation:
  "cmpNodeAfter (componentDecoratorToStatic u config tc diags cls ms dec) =
     removeDecorators cls (CLASS_DECORATORS_TO_REMOVE u) \<and>
   (\<forall>opts. first (getDeclarationParameters u dec) = Some (Some opts) \<longrightarrow>
      diagnosticsAfter (componentDecoratorToStatic u config tc diags cls ms dec) =
        snd (validateComponent u config diags tc opts
               (removeDecorators cls (CLASS_DECORATORS_TO_REMOVE u)) dec)) \<and>
   (\<forall>n ds. decoratorName dec = Some n \<and> n \<in> set (CLASS_DECORATORS_TO_REMOVE u) \<and>
      decorators (cmpNodeAfter (componentDecoratorToStatic u config tc diags cls ms dec)) = Some ds \<longrightarrow>
      dec \<notin> set ds)"
proof -
  have a: "cmpNodeAfter (componentDecoratorToStatic u config tc diags cls ms dec) =
     removeDecorators cls (CLASS_DECORATORS_TO_REMOVE u)"
    by (simp add: componentDecoratorToStatic_def Let_def
        split: option.splits prod.splits sum.splits bool.splits)
  have b: "diagnosticsAfter (componentDecoratorToStatic u config tc diags cls ms dec) =
        snd (validateComponent u config diags tc opts
               (removeDecorators cls (CLASS_DECORATORS_TO_REMOVE u)) dec)"
    if "first (getDeclarationParameters u dec) = Some (Some opts)" for opts
    using that by (simp add: componentDecoratorToStatic_def Let_def
        split: option.splits prod.splits sum.splits bool.splits)
  have c: "dec \<notin> set ds"
    if "decoratorName dec = Some n" "n \<in> set (CLASS_DECORATORS_TO_REMOVE u)"
      "decorators (removeDecorators cls (CLASS_DECORATORS_TO_REMOVE u)) = Some ds" for n ds
    using that by (auto simp: removeDecorators_def)
  show ?thesis using a b c by auto
qed

text \<open>
  Claim C9, amended, at a concrete input: the class that extends a base class, on which
  validation fails.
\<close>

theorem decorators_removed_first_on_every_invocation_witness:
  "decorators
     (cmpNodeAfter
        (componentDecoratorToStatic (exampleExternals exampleOptions) (exampleConfig False)
           (exampleChecker []) [] (exampleClass (Some [HeritageClause 7 ExtendsKeyword])) []
           exampleDecorator)) = Some [] \<and>
   diagnosticsAfter
     (componentDecoratorToStatic (exampleExternals exampleOptions) (exampleConfig False)
        (exampleChecker []) [] (exampleClass (Some [HeritageClause 7 ExtendsKeyword])) []
        exampleDecorator) =
     snd (validateComponent (exampleExternals exampleOptions) (exampleConfig False) []
            (exampleChecker []) exampleOptions
            (removeDecorators (exampleClass (Some [HeritageClause 7 ExtendsKeyword]))
               [''Component''])
            exampleDecorator)"
proof -
  let ?cls = "exampleClass (Some [HeritageClause 7 ExtendsKeyword])"
  note t = decorators_removed_first_on_every_invocation
    [where u = "exampleExternals exampleOptions" and config = "exampleConfig False"
       and tc = "exampleChecker []" and diags = "[]" and cls = ?cls and ms = "[]"
       and dec = exampleDecorator]
  have d: "decorators (removeDecorators ?cls [''Component'']) = Some []"
    by (simp add: removeDecorators_def exampleClass_def exampleDecorator_def)
  from t [THEN conjunct1] d have 1: "decorators
     (cmpNodeAfter
        (componentDecoratorToStatic (exampleExternals exampleOptions) (exampleConfig False)
           (exampleChecker []) [] ?cls [] exampleDecorator)) = Some []"
    by simp
  from t [THEN conjunct2, THEN conjunct1, rule_format, OF example_parameters]
  have 2: "diagnosticsAfter
     (componentDecoratorToStatic (exampleExternals exampleOptions) (exampleConfig False)
        (exampleChecker []) [] ?cls [] exampleDecorator) =
     snd (validateComponent (exampleExternals exampleOptions) (exampleConfig False) []
            (exampleChecker []) exampleOptions (removeDecorators ?cls [''Component''])
            exampleDecorator)"
    by simp
  from 1 2 show ?thesis by simp
qed

end
